theory Spec2Isabelle
  imports Complex_Main "HOL-Library.Sublist" "HOL-Library.Word"
begin

section \<open>Python values used by the document processor\<close>

text \<open>
  The embedding follows \<^verbatim>\<open>KBaseFaQs/universal_document_processor.py\<close>.
  A Python \<^verbatim>\<open>str\<close> is modelled as a \<^typ>\<open>string\<close> whose characters stand for the
  code points U+0000 to U+00FF, so \<^const>\<open>length\<close> is Python's \<^verbatim>\<open>len\<close> on such
  strings. Python integers are \<^typ>\<open>int\<close>. The float literals used as confidence
  scores are \<^typ>\<open>real\<close> constants; the program never computes with them.
  A raised exception is a value of \<open>py_exn\<close> on the left of a sum.

  The module does not parse as it stands: line 817, inside
  \<^verbatim>\<open>TextProcessor._detect_content_type\<close>, leaves a list literal open. Every other
  method is modelled from its own source lines; that one method is given no body
  (see the text extractor).
\<close>

type_synonym byte = "8 word"

datatype py_exn =
    NameError string
  | AttributeError string
  | TypeError string
  | ImportError string
  | OSError string
  | LibraryError string

text \<open>The values a metadata dictionary of the program holds.\<close>

datatype py_val = PInt int | PStr string | PBool bool | PNone

type_synonym py_dict = "(string \<times> py_val) list"

subsection \<open>String helpers\<close>

text \<open>\<^verbatim>\<open>str(n)\<close> for an integer: its decimal digits.\<close>

fun str_nat :: "nat \<Rightarrow> string" where
  "str_nat n = (if n < 10 then [char_of (48 + n)]
                else str_nat (n div 10) @ [char_of (48 + n mod 10)])"

declare str_nat.simps [simp del]

definition str_int :: "int \<Rightarrow> string" where
  "str_int i = (if i < 0 then CHR ''-'' # str_nat (nat (- i)) else str_nat (nat i))"

definition nl :: char where
  "nl = CHR 0x0A"

definition nn :: string where
  "nn = [nl, nl]"

text \<open>
  \<^verbatim>\<open>s.split('\n\n')\<close>: scan from the left, cut at every occurrence of two line
  feeds and resume after it. The first argument is the piece read so far.
\<close>

fun split_nn :: "string \<Rightarrow> string \<Rightarrow> string list" where
  "split_nn cur (a # b # cs) =
     (if a = nl \<and> b = nl then cur # split_nn [] cs
      else split_nn (cur @ [a]) (b # cs))"
| "split_nn cur [a] = [cur @ [a]]"
| "split_nn cur [] = [cur]"

text \<open>\<^verbatim>\<open>sep.join(parts)\<close>.\<close>

fun join :: "string \<Rightarrow> string list \<Rightarrow> string" where
  "join sep [] = []"
| "join sep [p] = p"
| "join sep (p # q # ps) = p @ sep @ join sep (q # ps)"

text \<open>\<^verbatim>\<open>sub in s\<close> for strings.\<close>

fun contains :: "string \<Rightarrow> string \<Rightarrow> bool" where
  "contains sub [] = (sub = [])"
| "contains sub (c # cs) = (prefix sub (c # cs) \<or> contains sub cs)"

text \<open>
  \<^verbatim>\<open>str.isspace\<close> on one code point below U+0100, and \<^verbatim>\<open>str.strip()\<close>.
\<close>

definition py_isspace :: "char \<Rightarrow> bool" where
  "py_isspace c = (let n = (of_char c :: nat) in
     (9 \<le> n \<and> n \<le> 13) \<or> (28 \<le> n \<and> n \<le> 32) \<or> n = 133 \<or> n = 160)"

definition py_strip :: "string \<Rightarrow> string" where
  "py_strip s = rev (dropWhile py_isspace (rev (dropWhile py_isspace s)))"

text \<open>\<^verbatim>\<open>str.lower()\<close> on code points below U+0100.\<close>

definition py_lower_char :: "char \<Rightarrow> char" where
  "py_lower_char c = (let n = (of_char c :: nat) in
     if (65 \<le> n \<and> n \<le> 90) \<or> (192 \<le> n \<and> n \<le> 222 \<and> n \<noteq> 215)
     then char_of (n + 32) else c)"

definition py_lower :: "string \<Rightarrow> string" where
  "py_lower s = map py_lower_char s"

section \<open>Data model\<close>

datatype DocumentType =
    EXCEL | WORD | PDF | POWERPOINT | IMAGE | TEXT | EMAIL | HTML | CODE | ARCHIVE | UNKNOWN

text \<open>
  \<^verbatim>\<open>DocumentChunk\<close> and \<^verbatim>\<open>KnowledgeBaseEntry\<close>. Both dataclasses have fields
  \<^verbatim>\<open>content\<close>, \<^verbatim>\<open>metadata\<close> and \<^verbatim>\<open>embedding_text\<close>; those of the entry carry the
  prefix \<open>kb_\<close> here.
\<close>

record DocumentChunk =
  chunk_id :: string
  document_id :: string
  content :: string
  content_type :: string
  chunk_index :: int
  total_chunks :: int
  metadata :: py_dict
  embedding_text :: string

record KnowledgeBaseEntry =
  uuid :: string
  title :: string
  kb_content :: string
  summary :: string
  category :: string
  tags :: "string list"
  confidence_score :: real
  source :: string
  document_type :: string
  kb_metadata :: py_dict
  chunks :: "DocumentChunk list"
  created_by :: string
  kb_embedding_text :: "string option"

section \<open>DocumentTypeDetector\<close>

text \<open>
  \<^verbatim>\<open>Path(file_path).suffix\<close> as \<^verbatim>\<open>pathlib\<close> computes it for a POSIX path: the name is
  the last component that is neither empty nor a single dot, and the suffix starts at
  the last dot of the name unless that dot is the first or the last character.
\<close>

fun split_on :: "char \<Rightarrow> string \<Rightarrow> string list" where
  "split_on c [] = [[]]"
| "split_on c (x # xs) =
     (if x = c then [] # split_on c xs
      else (case split_on c xs of [] \<Rightarrow> [[x]] | p # ps \<Rightarrow> (x # p) # ps))"

definition Path_name :: "string \<Rightarrow> string" where
  "Path_name file_path =
     (case filter (\<lambda>x. x \<noteq> [] \<and> x \<noteq> ''.'') (split_on CHR ''/'' file_path) of
        [] \<Rightarrow> []
      | x # xs \<Rightarrow> last (x # xs))"

fun rfind :: "char \<Rightarrow> string \<Rightarrow> nat option" where
  "rfind c [] = None"
| "rfind c (x # xs) =
     (case rfind c xs of
        Some i \<Rightarrow> Some (Suc i)
      | None \<Rightarrow> if x = c then Some 0 else None)"

definition Path_suffix :: "string \<Rightarrow> string" where
  "Path_suffix file_path =
     (let name = Path_name file_path in
      case rfind CHR ''.'' name of
        None \<Rightarrow> []
      | Some i \<Rightarrow> if 0 < i \<and> i + 1 < length name then drop i name else [])"

definition EXTENSION_MAP :: "(string \<times> DocumentType) list" where
  "EXTENSION_MAP =
     [(''.xlsx'', EXCEL), (''.xls'', EXCEL), (''.xlsm'', EXCEL), (''.csv'', EXCEL),
      (''.tsv'', EXCEL),
      (''.docx'', WORD), (''.doc'', WORD), (''.rtf'', WORD), (''.odt'', WORD),
      (''.pdf'', PDF),
      (''.pptx'', POWERPOINT), (''.ppt'', POWERPOINT), (''.odp'', POWERPOINT),
      (''.jpg'', IMAGE), (''.jpeg'', IMAGE), (''.png'', IMAGE), (''.gif'', IMAGE),
      (''.bmp'', IMAGE), (''.tiff'', IMAGE), (''.tif'', IMAGE), (''.webp'', IMAGE),
      (''.txt'', TEXT), (''.md'', TEXT), (''.markdown'', TEXT), (''.log'', TEXT),
      (''.json'', TEXT), (''.xml'', TEXT), (''.yaml'', TEXT), (''.yml'', TEXT),
      (''.ini'', TEXT), (''.cfg'', TEXT), (''.conf'', TEXT),
      (''.eml'', EMAIL), (''.msg'', EMAIL), (''.mbox'', EMAIL),
      (''.html'', HTML), (''.htm'', HTML), (''.xhtml'', HTML),
      (''.py'', CODE), (''.js'', CODE), (''.java'', CODE), (''.c'', CODE), (''.cpp'', CODE),
      (''.cs'', CODE), (''.php'', CODE), (''.rb'', CODE), (''.go'', CODE), (''.rs'', CODE),
      (''.swift'', CODE), (''.kt'', CODE), (''.scala'', CODE), (''.r'', CODE),
      (''.sql'', CODE), (''.sh'', CODE), (''.bat'', CODE), (''.ps1'', CODE),
      (''.zip'', ARCHIVE), (''.rar'', ARCHIVE), (''.7z'', ARCHIVE), (''.tar'', ARCHIVE),
      (''.gz'', ARCHIVE), (''.bz2'', ARCHIVE)]"

text \<open>\<^verbatim>\<open>DocumentTypeDetector.detect\<close>: \<^verbatim>\<open>EXTENSION_MAP.get(ext, UNKNOWN)\<close>.\<close>

definition detect :: "string \<Rightarrow> DocumentType" where
  "detect file_path =
     (let ext = py_lower (Path_suffix file_path) in
      case map_of EXTENSION_MAP ext of None \<Rightarrow> UNKNOWN | Some t \<Rightarrow> t)"

section \<open>BaseProcessor\<close>

text \<open>
  What the operating system and the libraries answer for the file at hand is a
  parameter of the model, the record \<open>world\<close>: a library call that can raise returns
  a sum.

  Spreadsheets: \<^verbatim>\<open>read_excel\<close> gives, per sheet, the column labels and the data rows.
  A label is a string or another header value (a number, a date) known by its
  \<^verbatim>\<open>str()\<close>. A cell is missing (\<^verbatim>\<open>pd.notna\<close> is false) or a value known by its
  \<^verbatim>\<open>str()\<close>. A row is looked up by label, as \<^verbatim>\<open>row.get(col)\<close> does; the labels of
  a frame read by pandas are distinct.
\<close>

datatype label = LStr string | LObj string

fun label_str :: "label \<Rightarrow> string" where
  "label_str (LStr s) = s"
| "label_str (LObj s) = s"

datatype cell = NaN | Val string

type_synonym row = "label \<Rightarrow> cell"

record frame =
  df_columns :: "label list"
  df_rows :: "(int \<times> row) list"

type_synonym pdf_table = "string option list list"

record plumber_page =
  extract_text :: "py_exn + string option"
  extract_tables :: "py_exn + pdf_table list"

record docx_document =
  doc_paragraphs :: "string list"
  doc_tables :: "string list list list"
  doc_inline_shapes :: nat

record pil_image =
  img_width :: int
  img_height :: int
  img_format :: "string option"
  img_mode :: string

record stat_result =
  st_size :: int
  st_ctime :: real
  st_mtime :: real

record world =
  w_stat :: "py_exn + stat_result"
  w_absolute :: string
  w_guess_type :: "string option"
  w_read_bytes :: "py_exn + byte list"
  w_sha256_hex :: "byte list \<Rightarrow> string"
  w_decode :: "string \<Rightarrow> byte list \<Rightarrow> string option"
  w_decode_ignore :: "byte list \<Rightarrow> string"
  w_detect_content_type :: "string \<Rightarrow> py_exn + string"
  w_import_pandas :: "py_exn option"
  w_pd_global :: bool
  w_read_excel :: "py_exn + (string \<times> label list \<times> row list) list"
  w_to_string :: "frame \<Rightarrow> string"
  w_import_pdf :: "py_exn option"
  w_plumber_open :: "py_exn + plumber_page list"
  w_pypdf_open :: "py_exn + (py_exn + string option) list"
  w_import_docx :: "py_exn option"
  w_docx_open :: "py_exn + docx_document"
  w_import_image :: "py_exn option"
  w_image_open :: "py_exn + pil_image"
  w_image_to_string :: "py_exn + string"

text \<open>
  The fields of \<open>world\<close>:
  \<^item> \<open>w_stat\<close>, \<open>w_absolute\<close>, \<open>w_guess_type\<close>: \<^verbatim>\<open>Path.stat()\<close>,
    \<^verbatim>\<open>str(path.absolute())\<close>, \<^verbatim>\<open>mimetypes.guess_type(path)[0]\<close>;
  \<^item> \<open>w_read_bytes\<close>: opening the file and reading its bytes;
  \<^item> \<open>w_sha256_hex\<close>: the hex digest of SHA-256;
  \<^item> \<open>w_decode enc\<close>: reading in text mode under the codec \<open>enc\<close>, \<open>None\<close> for
    \<^verbatim>\<open>UnicodeDecodeError\<close>; \<open>w_decode_ignore\<close>: \<^verbatim>\<open>decode('utf-8', errors='ignore')\<close>;
  \<^item> \<open>w_detect_content_type\<close>: what the call of \<^verbatim>\<open>_detect_content_type\<close> on the
    decoded content does, an exception or a content type; the source of that method
    does not parse (see the text extractor below), so the model gives it no body;
  \<^item> \<open>w_import_pandas\<close>, \<open>w_import_pdf\<close>, \<open>w_import_docx\<close>, \<open>w_import_image\<close>: the
    exception of the \<^verbatim>\<open>import\<close> statements of a processor, if any;
  \<^item> \<open>w_pd_global\<close>: whether the name \<^verbatim>\<open>pd\<close> is bound in the globals of the module
    when \<^verbatim>\<open>_create_entry_from_row\<close> looks it up. The only import of pandas in the
    module is local to \<^verbatim>\<open>ExcelProcessor.process\<close>, so for the module as it stands
    this is \<open>False\<close>;
  \<^item> \<open>w_read_excel\<close>, \<open>w_to_string\<close>: \<^verbatim>\<open>pd.read_excel(..., sheet_name=None)\<close> and
    \<^verbatim>\<open>DataFrame.to_string\<close>;
  \<^item> \<open>w_plumber_open\<close>: \<^verbatim>\<open>PDF.open\<close> of pdfplumber and the pages it lists;
    \<open>w_pypdf_open\<close>: \<^verbatim>\<open>PyPDF2.PdfReader\<close> and, per page, what \<^verbatim>\<open>extract_text\<close> does;
  \<^item> \<open>w_docx_open\<close>: \<^verbatim>\<open>docx.Document\<close>;
  \<^item> \<open>w_image_open\<close>, \<open>w_image_to_string\<close>: \<^verbatim>\<open>Image.open\<close> and
    \<^verbatim>\<open>pytesseract.image_to_string\<close>.
\<close>

record DocumentMetadata =
  md_file_name :: string
  md_file_path :: string
  md_file_size :: int
  md_file_type :: DocumentType
  md_mime_type :: string
  md_created_date :: "real option"
  md_modified_date :: "real option"
  md_author :: "string option"
  md_title :: "string option"
  md_subject :: "string option"
  md_keywords :: "string list"
  md_language :: "string option"
  md_page_count :: "int option"
  md_word_count :: "int option"
  md_has_images :: bool
  md_has_tables :: bool
  md_has_attachments :: bool
  md_encoding :: "string option"
  md_checksum :: string

record BaseProcessor =
  self_file_path :: string
  self_file_name :: string
  self_metadata :: DocumentMetadata

text \<open>
  \<^verbatim>\<open>BaseProcessor.__init__\<close> with \<^verbatim>\<open>_extract_metadata\<close> and
  \<^verbatim>\<open>_calculate_checksum\<close>: the \<^verbatim>\<open>stat\<close> call comes first, the checksum last.
\<close>

definition BaseProcessor_init :: "world \<Rightarrow> string \<Rightarrow> py_exn + BaseProcessor" where
  "BaseProcessor_init w file_path =
     (case w_stat w of
        Inl e \<Rightarrow> Inl e
      | Inr st \<Rightarrow>
          (case w_read_bytes w of
             Inl e \<Rightarrow> Inl e
           | Inr bs \<Rightarrow>
               Inr \<lparr> self_file_path = file_path,
                     self_file_name = Path_name file_path,
                     self_metadata =
                       \<lparr> md_file_name = Path_name file_path,
                         md_file_path = w_absolute w,
                         md_file_size = st_size st,
                         md_file_type = detect file_path,
                         md_mime_type = (case w_guess_type w of
                                           None \<Rightarrow> ''application/octet-stream''
                                         | Some m \<Rightarrow> if m = [] then ''application/octet-stream'' else m),
                         md_created_date = Some (st_ctime st),
                         md_modified_date = Some (st_mtime st),
                         md_author = None,
                         md_title = None,
                         md_subject = None,
                         md_keywords = [],
                         md_language = None,
                         md_page_count = None,
                         md_word_count = None,
                         md_has_images = False,
                         md_has_tables = False,
                         md_has_attachments = False,
                         md_encoding = None,
                         md_checksum = w_sha256_hex w bs \<rparr> \<rparr>))"

section \<open>ExcelProcessor\<close>

text \<open>
  \<^verbatim>\<open>read_excel\<close> labels the data rows 0, 1, 2, ... (a \<^verbatim>\<open>RangeIndex\<close>);
  \<^verbatim>\<open>dropna(how='all')\<close> drops the rows whose cells are all missing and keeps the
  labels of the others; \<^verbatim>\<open>dropna(axis=1, how='all')\<close> then drops the columns whose
  cells are all missing; \<^verbatim>\<open>df.empty\<close> holds when an axis has length 0.
\<close>

definition read_frame :: "label list \<Rightarrow> row list \<Rightarrow> frame" where
  "read_frame cols data = \<lparr> df_columns = cols, df_rows = zip (map int [0..<length data]) data \<rparr>"

definition dropna_rows :: "frame \<Rightarrow> frame" where
  "dropna_rows df =
     df\<lparr> df_rows := filter (\<lambda>(idx, r). \<exists>c\<in>set (df_columns df). r c \<noteq> NaN) (df_rows df) \<rparr>"

definition dropna_columns :: "frame \<Rightarrow> frame" where
  "dropna_columns df =
     df\<lparr> df_columns := filter (\<lambda>c. \<exists>(idx, r)\<in>set (df_rows df). r c \<noteq> NaN) (df_columns df) \<rparr>"

definition df_empty :: "frame \<Rightarrow> bool" where
  "df_empty df \<longleftrightarrow> df_columns df = [] \<or> df_rows df = []"

definition df_head :: "nat \<Rightarrow> frame \<Rightarrow> frame" where
  "df_head n df = df\<lparr> df_rows := take n (df_rows df) \<rparr>"

text \<open>\<^verbatim>\<open>ExcelProcessor._extract_tags\<close>; \<^verbatim>\<open>list(set(tags))\<close> keeps one copy of each tag, in an order Python does not fix.\<close>

definition excel_keywords :: "string list" where
  "excel_keywords =
     [''CICS'', ''DB2'', ''IMS'', ''COBOL'', ''JCL'', ''VSAM'', ''Mainframe'', ''Batch'', ''Online'']"

definition extract_tags :: "string \<Rightarrow> string list" where
  "extract_tags cont =
     remdups (map py_lower
       (filter (\<lambda>keyword. contains (py_lower keyword) (py_lower cont)) excel_keywords))"

definition title_keywords :: "string list" where
  "title_keywords =
     [''nome'', ''name'', ''t'' @ [CHR 0xED] @ ''tulo'', ''title'', ''id'',
      ''c'' @ [CHR 0xF3] @ ''digo'', ''code'']"

text \<open>
  The loop over the columns in \<^verbatim>\<open>_create_entry_from_row\<close>. \<^verbatim>\<open>pd.notna\<close> is
  evaluated first in every iteration and raises \<^verbatim>\<open>NameError\<close> when \<^verbatim>\<open>pd\<close> is not
  bound; \<^verbatim>\<open>col.lower()\<close> raises \<^verbatim>\<open>AttributeError\<close> on a label that is not a string.
\<close>

fun row_columns_loop ::
  "bool \<Rightarrow> row \<Rightarrow> label list \<Rightarrow> string list \<times> string list
     \<Rightarrow> py_exn + (string list \<times> string list)" where
  "row_columns_loop pd_global r [] st = Inr st"
| "row_columns_loop pd_global r (col # cols) (title_parts, content_parts) =
     (if \<not> pd_global then Inl (NameError ''pd'')
      else (case r col of
              NaN \<Rightarrow> row_columns_loop pd_global r cols (title_parts, content_parts)
            | Val v \<Rightarrow>
                if py_strip v = [] then row_columns_loop pd_global r cols (title_parts, content_parts)
                else (case col of
                        LObj x \<Rightarrow> Inl (AttributeError ''lower'')
                      | LStr c \<Rightarrow>
                          row_columns_loop pd_global r cols
                            (if \<exists>keyword\<in>set title_keywords. contains keyword (py_lower c)
                             then title_parts @ [py_strip v] else title_parts,
                             content_parts @ [c @ '': '' @ py_strip v]))))"

definition create_entry_from_row ::
  "bool \<Rightarrow> BaseProcessor \<Rightarrow> row \<Rightarrow> label list \<Rightarrow> string \<Rightarrow> int
     \<Rightarrow> py_exn + KnowledgeBaseEntry option" where
  "create_entry_from_row pd_global self r columns sheet_name row_index =
     (case row_columns_loop pd_global r columns ([], []) of
        Inl e \<Rightarrow> Inl e
      | Inr (title_parts, content_parts) \<Rightarrow>
          if content_parts = [] then Inr None
          else
            let ttl = (if title_parts \<noteq> [] then join '' - '' (take 3 title_parts)
                       else ''Linha '' @ str_int (row_index + 1) @ '' de '' @ sheet_name);
                cont = join [nl] content_parts;
                chunk = \<lparr> chunk_id = sheet_name @ ''_'' @ str_int row_index,
                          document_id = md_checksum (self_metadata self),
                          content = cont,
                          content_type = ''table_row'',
                          chunk_index = row_index,
                          total_chunks = int (length columns),
                          metadata = [(''sheet'', PStr sheet_name), (''row'', PInt row_index)],
                          embedding_text = cont \<rparr>
            in Inr (Some
                 \<lparr> uuid = md_checksum (self_metadata self) @ ''_'' @ sheet_name @ ''_''
                            @ str_int row_index,
                   title = ''[Excel] '' @ ttl,
                   kb_content = cont,
                   summary = take 500 cont,
                   category = ''Spreadsheet Data'',
                   tags = extract_tags cont,
                   confidence_score = 0.8,
                   source = self_file_name self,
                   document_type = ''excel'',
                   kb_metadata = [(''sheet'', PStr sheet_name), (''row'', PInt row_index)],
                   chunks = [chunk],
                   created_by = ''auto_import'',
                   kb_embedding_text = None \<rparr>))"

text \<open>
  \<^verbatim>\<open>_create_entry_from_sheet\<close>. \<^verbatim>\<open>', '.join(df.columns[:10])\<close> raises
  \<^verbatim>\<open>TypeError\<close> when one of these labels is not a string.
\<close>

definition create_entry_from_sheet ::
  "world \<Rightarrow> BaseProcessor \<Rightarrow> frame \<Rightarrow> string \<Rightarrow> py_exn + KnowledgeBaseEntry option" where
  "create_entry_from_sheet w self df sheet_name =
     (if df_empty df then Inr None
      else if \<exists>c\<in>set (take 10 (df_columns df)). (case c of LObj x \<Rightarrow> True | LStr x \<Rightarrow> False)
      then Inl (TypeError ''join'')
      else
        let summary_parts =
              [''Sheet: '' @ sheet_name,
               ''Linhas: '' @ str_int (int (length (df_rows df))),
               ''Colunas: '' @ str_int (int (length (df_columns df))),
               ''Colunas: '' @ join '', '' (map label_str (take 10 (df_columns df)))];
            cont = join [nl] summary_parts @ [nl, nl] @ ''Amostra de dados:'' @ [nl]
                     @ w_to_string w (df_head 10 df)
        in Inr (Some
             \<lparr> uuid = md_checksum (self_metadata self) @ ''_'' @ sheet_name @ ''_sheet'',
               title = ''[Excel Sheet] '' @ sheet_name @ '' - '' @ self_file_name self,
               kb_content = cont,
               summary = join '' | '' summary_parts,
               category = ''Spreadsheet'',
               tags = [sheet_name, ''excel'', ''tabela''],
               confidence_score = 0.9,
               source = self_file_name self,
               document_type = ''excel_sheet'',
               kb_metadata = [(''total_rows'', PInt (int (length (df_rows df)))),
                              (''total_cols'', PInt (int (length (df_columns df))))],
               chunks = [],
               created_by = ''auto_import'',
               kb_embedding_text = None \<rparr>))"

text \<open>
  The loops of \<^verbatim>\<open>ExcelProcessor.process\<close>. They carry the list \<^verbatim>\<open>entries\<close> and
  return it with the exception that stopped them, if any: what was appended before
  an exception stays in the list that \<^verbatim>\<open>process\<close> returns.
\<close>

fun rows_loop ::
  "bool \<Rightarrow> BaseProcessor \<Rightarrow> label list \<Rightarrow> string \<Rightarrow> (int \<times> row) list
     \<Rightarrow> KnowledgeBaseEntry list \<Rightarrow> KnowledgeBaseEntry list \<times> py_exn option" where
  "rows_loop pd_global self columns sheet_name [] entries = (entries, None)"
| "rows_loop pd_global self columns sheet_name ((idx, r) # rest) entries =
     (case create_entry_from_row pd_global self r columns sheet_name idx of
        Inl e \<Rightarrow> (entries, Some e)
      | Inr None \<Rightarrow> rows_loop pd_global self columns sheet_name rest entries
      | Inr (Some entry) \<Rightarrow> rows_loop pd_global self columns sheet_name rest (entries @ [entry]))"

definition prune :: "label list \<Rightarrow> row list \<Rightarrow> frame" where
  "prune cols data = dropna_columns (dropna_rows (read_frame cols data))"

definition process_sheet ::
  "world \<Rightarrow> BaseProcessor \<Rightarrow> string \<Rightarrow> label list \<Rightarrow> row list
     \<Rightarrow> KnowledgeBaseEntry list \<Rightarrow> KnowledgeBaseEntry list \<times> py_exn option" where
  "process_sheet w self sheet_name cols data entries =
     (let df = prune cols data in
      if df_empty df then (entries, None)
      else (case rows_loop (w_pd_global w) self (df_columns df) sheet_name (df_rows df) entries of
              (entries', Some e) \<Rightarrow> (entries', Some e)
            | (entries', None) \<Rightarrow>
                (case create_entry_from_sheet w self df sheet_name of
                   Inl e \<Rightarrow> (entries', Some e)
                 | Inr None \<Rightarrow> (entries', None)
                 | Inr (Some sheet_entry) \<Rightarrow> (entries' @ [sheet_entry], None))))"

fun sheets_loop ::
  "world \<Rightarrow> BaseProcessor \<Rightarrow> (string \<times> label list \<times> row list) list
     \<Rightarrow> KnowledgeBaseEntry list \<Rightarrow> KnowledgeBaseEntry list \<times> py_exn option" where
  "sheets_loop w self [] entries = (entries, None)"
| "sheets_loop w self ((sheet_name, cols, data) # rest) entries =
     (case process_sheet w self sheet_name cols data entries of
        (entries', Some e) \<Rightarrow> (entries', Some e)
      | (entries', None) \<Rightarrow> sheets_loop w self rest entries')"

text \<open>
  \<^verbatim>\<open>ExcelProcessor.process\<close>. The import of pandas stands before the \<^verbatim>\<open>try\<close>, so
  its exception leaves the method; every other exception is logged and the entries
  appended so far are returned.
\<close>

definition ExcelProcessor_process :: "world \<Rightarrow> BaseProcessor \<Rightarrow> py_exn + KnowledgeBaseEntry list" where
  "ExcelProcessor_process w self =
     (case w_import_pandas w of
        Some e \<Rightarrow> Inl e
      | None \<Rightarrow>
          (case w_read_excel w of
             Inl e \<Rightarrow> Inr []
           | Inr all_sheets \<Rightarrow> Inr (fst (sheets_loop w self all_sheets []))))"

section \<open>PDFProcessor\<close>

text \<open>\<^verbatim>\<open>_extract_pdf_tags\<close>.\<close>

definition extract_pdf_tags :: "string \<Rightarrow> string list" where
  "extract_pdf_tags cont =
     remdups ([''pdf'', ''documento'']
       @ filter (\<lambda>keyword. contains keyword (py_lower cont))
           [''manual'', ''guide'', ''tutorial'', ''specification'', ''documentation''])"

text \<open>
  \<^verbatim>\<open>_create_table_entry\<close>. A table of pdfplumber is a list of rows of optional
  strings; a cell that is \<^verbatim>\<open>None\<close> or empty is left out of its row.
\<close>

definition table_row_text :: "string option list \<Rightarrow> string" where
  "table_row_text r =
     join '' | '' (List.map_filter (\<lambda>cl. case cl of None \<Rightarrow> None
                                          | Some x \<Rightarrow> if x = [] then None else Some x) r)"

definition create_table_entry :: "BaseProcessor \<Rightarrow> pdf_table \<Rightarrow> int \<Rightarrow> KnowledgeBaseEntry option" where
  "create_table_entry self table index =
     (if table = [] \<or> length table < 2 then None
      else Some
        \<lparr> uuid = md_checksum (self_metadata self) @ ''_table_'' @ str_int index,
          title = ''[Tabela PDF] Tabela '' @ str_int (index + 1) @ '' de '' @ self_file_name self,
          kb_content = ''Tabela extra'' @ [CHR 0xED] @ ''da:'' @ [nl]
                         @ concat (map (\<lambda>r. table_row_text r @ [nl]) table),
          summary = ''Tabela com '' @ str_int (int (length table)) @ '' linhas e ''
                      @ str_int (int (length (hd table))) @ '' colunas'',
          category = ''Table'',
          tags = [''tabela'', ''pdf'', ''dados''],
          confidence_score = 0.8,
          source = self_file_name self,
          document_type = ''pdf_table'',
          kb_metadata = [(''table_index'', PInt index), (''rows'', PInt (int (length table)))],
          chunks = [],
          created_by = ''auto_import'',
          kb_embedding_text = None \<rparr>)"

definition page_block :: "int \<Rightarrow> string \<Rightarrow> string" where
  "page_block i text =
     ''--- P'' @ [CHR 0xE1] @ ''gina '' @ str_int (i + 1) @ '' ---'' @ [nl] @ text"

text \<open>
  The first loop of the pdfplumber strategy, over \<^verbatim>\<open>enumerate(pdf.pages)\<close>: a page
  whose text is \<^verbatim>\<open>None\<close> or empty adds nothing to \<^verbatim>\<open>all_text\<close>.
\<close>

fun plumber_pages_loop ::
  "plumber_page list \<Rightarrow> int \<Rightarrow> string list \<times> pdf_table list
     \<Rightarrow> py_exn + (string list \<times> pdf_table list)" where
  "plumber_pages_loop [] i st = Inr st"
| "plumber_pages_loop (page # pages) i (all_text, tables) =
     (case extract_text page of
        Inl e \<Rightarrow> Inl e
      | Inr text \<Rightarrow>
          (case extract_tables page of
             Inl e \<Rightarrow> Inl e
           | Inr page_tables \<Rightarrow>
               plumber_pages_loop pages (i + 1)
                 (case text of
                    None \<Rightarrow> all_text
                  | Some t \<Rightarrow> if t = [] then all_text else all_text @ [page_block i t],
                  if page_tables \<noteq> [] then tables @ page_tables else tables)))"

definition page_chunk :: "BaseProcessor \<Rightarrow> nat \<Rightarrow> nat \<times> string \<Rightarrow> DocumentChunk" where
  "page_chunk self n = (\<lambda>(i, page_text).
     \<lparr> chunk_id = ''page_'' @ str_int (int i),
       document_id = md_checksum (self_metadata self),
       content = page_text,
       content_type = ''text'',
       chunk_index = int i,
       total_chunks = int n,
       metadata = [(''page'', PInt (int i + 1))],
       embedding_text = page_text \<rparr>)"

text \<open>
  The body of the inner \<^verbatim>\<open>try\<close>: the strategy with pdfplumber. No statement after the
  first \<^verbatim>\<open>entries.append\<close> can raise on tables of the type above, so the strategy
  either raises with nothing appended or returns all its entries.
\<close>

definition pdfplumber_strategy :: "world \<Rightarrow> BaseProcessor \<Rightarrow> py_exn + KnowledgeBaseEntry list" where
  "pdfplumber_strategy w self =
     (case w_plumber_open w of
        Inl e \<Rightarrow> Inl e
      | Inr pages \<Rightarrow>
          (case plumber_pages_loop pages 0 ([], []) of
             Inl e \<Rightarrow> Inl e
           | Inr (all_text, tables) \<Rightarrow>
               let cont = join nn all_text;
                   cks = map (page_chunk self (length all_text)) (enumerate 0 all_text);
                   entry =
                     \<lparr> uuid = md_checksum (self_metadata self),
                       title = ''[PDF] '' @ self_file_name self,
                       kb_content = cont,
                       summary = take 1000 cont,
                       category = ''Document'',
                       tags = extract_pdf_tags cont,
                       confidence_score = 0.9,
                       source = self_file_name self,
                       document_type = ''pdf'',
                       kb_metadata = [(''pages'', PInt (int (length pages))),
                                      (''has_tables'', PBool (0 < length tables))],
                       chunks = cks,
                       created_by = ''auto_import'',
                       kb_embedding_text = None \<rparr>
               in Inr (entry # List.map_filter
                                 (\<lambda>(i, table). create_table_entry self table (int i))
                                 (enumerate 0 tables))))"

text \<open>The handler of the inner \<^verbatim>\<open>try\<close>: the strategy with PyPDF2.\<close>

fun pypdf_pages_loop ::
  "(py_exn + string option) list \<Rightarrow> int \<Rightarrow> string list \<Rightarrow> py_exn + string list" where
  "pypdf_pages_loop [] i all_text = Inr all_text"
| "pypdf_pages_loop (page # pages) i all_text =
     (case page of
        Inl e \<Rightarrow> Inl e
      | Inr text \<Rightarrow>
          pypdf_pages_loop pages (i + 1)
            (case text of
               None \<Rightarrow> all_text
             | Some t \<Rightarrow> if t = [] then all_text else all_text @ [page_block i t]))"

definition pypdf_strategy :: "world \<Rightarrow> BaseProcessor \<Rightarrow> py_exn + KnowledgeBaseEntry list" where
  "pypdf_strategy w self =
     (case w_pypdf_open w of
        Inl e \<Rightarrow> Inl e
      | Inr pages \<Rightarrow>
          (case pypdf_pages_loop pages 0 [] of
             Inl e \<Rightarrow> Inl e
           | Inr all_text \<Rightarrow>
               let cont = join nn all_text
               in Inr [\<lparr> uuid = md_checksum (self_metadata self),
                          title = ''[PDF] '' @ self_file_name self,
                          kb_content = cont,
                          summary = take 1000 cont,
                          category = ''Document'',
                          tags = [''pdf''],
                          confidence_score = 0.7,
                          source = self_file_name self,
                          document_type = ''pdf'',
                          kb_metadata = [(''pages'', PInt (int (length pages)))],
                          chunks = [],
                          created_by = ''auto_import'',
                          kb_embedding_text = None \<rparr>]))"

text \<open>
  \<^verbatim>\<open>PDFProcessor.process\<close>: the outer \<^verbatim>\<open>try\<close> turns a failed import and a failure
  of the second strategy into the empty list.
\<close>

definition PDFProcessor_process :: "world \<Rightarrow> BaseProcessor \<Rightarrow> KnowledgeBaseEntry list" where
  "PDFProcessor_process w self =
     (case w_import_pdf w of
        Some e \<Rightarrow> []
      | None \<Rightarrow>
          (case pdfplumber_strategy w self of
             Inr entries \<Rightarrow> entries
           | Inl e \<Rightarrow>
               (case pypdf_strategy w self of
                  Inr entries \<Rightarrow> entries
                | Inl e' \<Rightarrow> [])))"

section \<open>WordProcessor\<close>

text \<open>
  \<^verbatim>\<open>re.split(r'\n(?=[A-Z\d#]{3,})', content)\<close>: cut at every line feed that is
  followed by three characters among the capital letters A to Z, the digits and the
  hash sign; the line feed is dropped.
\<close>

definition is_heading_char :: "char \<Rightarrow> bool" where
  "is_heading_char c = (let n = (of_char c :: nat) in
     (65 \<le> n \<and> n \<le> 90) \<or> (48 \<le> n \<and> n \<le> 57) \<or> n = 35)"

fun re_split_sections :: "string \<Rightarrow> string \<Rightarrow> string list" where
  "re_split_sections cur [] = [cur]"
| "re_split_sections cur (c # cs) =
     (if c = nl \<and> length (take 3 cs) = 3 \<and> list_all is_heading_char (take 3 cs)
      then cur # re_split_sections [] cs
      else re_split_sections (cur @ [c]) cs)"

definition create_chunks_from_content :: "BaseProcessor \<Rightarrow> string \<Rightarrow> DocumentChunk list" where
  "create_chunks_from_content self cont =
     (let sections = re_split_sections [] cont in
      List.map_filter
        (\<lambda>(i, section). if py_strip section = [] then None
           else Some \<lparr> chunk_id = ''section_'' @ str_int (int i),
                       document_id = md_checksum (self_metadata self),
                       content = section,
                       content_type = ''text'',
                       chunk_index = int i,
                       total_chunks = int (length sections),
                       metadata = [(''section'', PInt (int i))],
                       embedding_text = section \<rparr>)
        (enumerate 0 sections))"

definition word_doc_types :: "(string \<times> string list) list" where
  "word_doc_types =
     [(''manual'', [''manual'', ''instru'' @ [CHR 0xE7, CHR 0xF5] @ ''es'', ''instructions'']),
      (''relat'' @ [CHR 0xF3] @ ''rio'',
         [''relat'' @ [CHR 0xF3] @ ''rio'', ''report'', ''an'' @ [CHR 0xE1] @ ''lise'']),
      (''procedimento'', [''procedimento'', ''procedure'', ''processo'']),
      (''pol'' @ [CHR 0xED] @ ''tica'', [''pol'' @ [CHR 0xED] @ ''tica'', ''policy'', ''norma''])]"

definition extract_word_tags :: "string \<Rightarrow> string list" where
  "extract_word_tags cont =
     remdups ([''word'', ''documento'']
       @ map fst (filter (\<lambda>(tag, keywords). \<exists>keyword\<in>set keywords. contains keyword (py_lower cont))
                    word_doc_types))"

definition WordProcessor_process :: "world \<Rightarrow> BaseProcessor \<Rightarrow> KnowledgeBaseEntry list" where
  "WordProcessor_process w self =
     (case w_import_docx w of
        Some e \<Rightarrow> []
      | None \<Rightarrow>
          (case w_docx_open w of
             Inl e \<Rightarrow> []
           | Inr doc \<Rightarrow>
               let paragraphs = filter (\<lambda>t. py_strip t \<noteq> []) (doc_paragraphs doc);
                   tables_text =
                     List.map_filter
                       (\<lambda>table.
                          let table_data =
                                List.map_filter
                                  (\<lambda>r. let row_data = map py_strip r
                                        in if \<exists>x\<in>set row_data. x \<noteq> []
                                           then Some (join '' | '' row_data) else None)
                                  table
                          in if table_data \<noteq> [] then Some (join [nl] table_data) else None)
                       (doc_tables doc);
                   cont = join nn paragraphs
                            @ (if tables_text \<noteq> []
                               then nn @ ''--- Tabelas ---'' @ nn @ join nn tables_text else [])
               in [\<lparr> uuid = md_checksum (self_metadata self),
                     title = ''[Word] '' @ self_file_name self,
                     kb_content = cont,
                     summary = take 1000 cont,
                     category = ''Document'',
                     tags = extract_word_tags cont,
                     confidence_score = 0.9,
                     source = self_file_name self,
                     document_type = ''word'',
                     kb_metadata = [(''paragraphs'', PInt (int (length paragraphs))),
                                    (''tables'', PInt (int (length (doc_tables doc)))),
                                    (''has_images'', PBool (0 < doc_inline_shapes doc))],
                     chunks = create_chunks_from_content self cont,
                     created_by = ''auto_import'',
                     kb_embedding_text = None \<rparr>]))"

section \<open>ImageProcessor\<close>

text \<open>
  \<^verbatim>\<open>ImageProcessor.process\<close>. The imports, \<^verbatim>\<open>Image.open\<close> and the text recognition
  all stand inside the \<^verbatim>\<open>try\<close>; an exception of any of them is logged and the empty
  list is returned. The entry of the recognised text depends on \<^verbatim>\<open>text.strip()\<close>.
\<close>

definition format_str :: "string option \<Rightarrow> string" where
  "format_str f = (case f of None \<Rightarrow> ''None'' | Some x \<Rightarrow> x)"

definition image_metadata :: "pil_image \<Rightarrow> string \<Rightarrow> py_dict" where
  "image_metadata img text =
     [(''width'', PInt (img_width img)),
      (''height'', PInt (img_height img)),
      (''format'', (case img_format img of None \<Rightarrow> PNone | Some x \<Rightarrow> PStr x)),
      (''mode'', PStr (img_mode img)),
      (''has_text'', PBool (0 < length (py_strip text)))]"

definition ocr_entry :: "BaseProcessor \<Rightarrow> pil_image \<Rightarrow> string \<Rightarrow> KnowledgeBaseEntry" where
  "ocr_entry self img text =
     \<lparr> uuid = md_checksum (self_metadata self) @ ''_ocr'',
       title = ''[OCR] '' @ self_file_name self,
       kb_content = ''Texto extra'' @ [CHR 0xED] @ ''do da imagem:'' @ nn @ text,
       summary = take 500 text,
       category = ''Image OCR'',
       tags = [''imagem'', ''ocr'', ''texto_extra'' @ [CHR 0xED] @ ''do''],
       confidence_score = 0.7,
       source = self_file_name self,
       document_type = ''image_ocr'',
       kb_metadata = image_metadata img text,
       chunks = [],
       created_by = ''auto_import'',
       kb_embedding_text = None \<rparr>"

definition img_entry :: "BaseProcessor \<Rightarrow> pil_image \<Rightarrow> string \<Rightarrow> KnowledgeBaseEntry" where
  "img_entry self img text =
     \<lparr> uuid = md_checksum (self_metadata self),
       title = ''[Imagem] '' @ self_file_name self,
       kb_content = ''Imagem: '' @ self_file_name self @ [nl]
                      @ ''Dimens'' @ [CHR 0xF5] @ ''es: '' @ str_int (img_width img) @ ''x''
                      @ str_int (img_height img) @ [nl]
                      @ ''Formato: '' @ format_str (img_format img),
       summary = ''Arquivo de imagem '' @ format_str (img_format img) @ '' (''
                   @ str_int (img_width img) @ ''x'' @ str_int (img_height img) @ '')'',
       category = ''Image'',
       tags = [''imagem'',
               (case img_format img of
                  None \<Rightarrow> ''unknown''
                | Some x \<Rightarrow> if x = [] then ''unknown'' else py_lower x)],
       confidence_score = 1.0,
       source = self_file_name self,
       document_type = ''image'',
       kb_metadata = image_metadata img text,
       chunks = [],
       created_by = ''auto_import'',
       kb_embedding_text = None \<rparr>"

definition ImageProcessor_process :: "world \<Rightarrow> BaseProcessor \<Rightarrow> KnowledgeBaseEntry list" where
  "ImageProcessor_process w self =
     (case w_import_image w of
        Some e \<Rightarrow> []
      | None \<Rightarrow>
          (case w_image_open w of
             Inl e \<Rightarrow> []
           | Inr img \<Rightarrow>
               (case w_image_to_string w of
                  Inl e \<Rightarrow> []
                | Inr text \<Rightarrow>
                    (if py_strip text \<noteq> [] then [ocr_entry self img text] else [])
                      @ [img_entry self img text])))"

section \<open>TextProcessor: the chunker\<close>

text \<open>
  \<^verbatim>\<open>TextProcessor._create_text_chunks\<close>. The loop state is the list of chunks
  appended so far, \<^verbatim>\<open>current_chunk\<close> and \<^verbatim>\<open>chunk_index\<close>; \<open>checksum\<close> is
  \<^verbatim>\<open>self.metadata.checksum\<close>.
\<close>

definition text_chunk :: "string \<Rightarrow> string \<Rightarrow> int \<Rightarrow> int \<Rightarrow> DocumentChunk" where
  "text_chunk checksum current_chunk idx n_total =
     \<lparr> chunk_id = ''chunk_'' @ str_int idx,
       document_id = checksum,
       content = current_chunk,
       content_type = ''text'',
       chunk_index = idx,
       total_chunks = n_total,
       metadata = [(''size'', PInt (int (length current_chunk)))],
       embedding_text = current_chunk \<rparr>"

fun chunk_loop ::
  "string \<Rightarrow> int \<Rightarrow> string list \<Rightarrow> DocumentChunk list \<times> string \<times> int
     \<Rightarrow> DocumentChunk list \<times> string \<times> int" where
  "chunk_loop checksum chunk_size [] st = st"
| "chunk_loop checksum chunk_size (para # paras) (cks, current_chunk, idx) =
     (if int (length current_chunk) + int (length para) < chunk_size
      then chunk_loop checksum chunk_size paras (cks, current_chunk @ para @ nn, idx)
      else if current_chunk \<noteq> []
      then chunk_loop checksum chunk_size paras
             (cks @ [text_chunk checksum current_chunk idx 0], para @ nn, idx + 1)
      else chunk_loop checksum chunk_size paras (cks, para @ nn, idx))"

definition create_text_chunks :: "string \<Rightarrow> string \<Rightarrow> int \<Rightarrow> DocumentChunk list" where
  "create_text_chunks checksum cont chunk_size =
     (case chunk_loop checksum chunk_size (split_nn [] cont) ([], [], 0) of
        (cks, current_chunk, idx) \<Rightarrow>
          let cks' = (if current_chunk \<noteq> []
                      then cks @ [text_chunk checksum current_chunk idx (int (length cks) + 1)]
                      else cks)
          in map (\<lambda>c. c\<lparr>total_chunks := int (length cks')\<rparr>) cks')"

section \<open>TextProcessor: decoding and the entry\<close>

text \<open>
  The decoding loop of \<^verbatim>\<open>TextProcessor.process\<close>: the first encoding of the list
  under which the file reads without \<^verbatim>\<open>UnicodeDecodeError\<close> gives the content and
  is stored in \<^verbatim>\<open>self.metadata.encoding\<close>; when none does, the bytes are decoded as
  UTF-8 with the invalid ones ignored. A failure to open the file is not a
  \<^verbatim>\<open>UnicodeDecodeError\<close> and leaves the loop.
\<close>

definition encodings :: "string list" where
  "encodings = [''utf-8'', ''latin-1'', ''cp1252'', ''iso-8859-1'']"

fun try_encodings :: "world \<Rightarrow> byte list \<Rightarrow> string list \<Rightarrow> (string \<times> string) option" where
  "try_encodings w bs [] = None"
| "try_encodings w bs (encoding # rest) =
     (case w_decode w encoding bs of
        Some cont \<Rightarrow> Some (cont, encoding)
      | None \<Rightarrow> try_encodings w bs rest)"

definition decode_file :: "world \<Rightarrow> BaseProcessor \<Rightarrow> py_exn + (string \<times> BaseProcessor)" where
  "decode_file w self =
     (case w_read_bytes w of
        Inl e \<Rightarrow> Inl e
      | Inr bs \<Rightarrow>
          (case try_encodings w bs encodings of
             Some (cont, encoding) \<Rightarrow>
               Inr (cont, self\<lparr> self_metadata := (self_metadata self)\<lparr> md_encoding := Some encoding \<rparr> \<rparr>)
           | None \<Rightarrow> Inr (w_decode_ignore w bs, self)))"

text \<open>
  \<^verbatim>\<open>_detect_content_type\<close> has no definition here. Its source opens a list literal on
  line 817,
  \<^verbatim>\<open>if any(pattern in content for pattern in ['# ', '## ', '```', '[](', '![]('):\<close>
  and never closes it: the closing bracket is missing before the parenthesis, so the
  method, and with it the module, does not parse as it stands. The model does not
  repair the line. What the call on line 759 does is the parameter
  \<open>w_detect_content_type\<close> of the world: it raises, or it returns a content type. An
  exception of the call is caught by the handler of \<^verbatim>\<open>TextProcessor.process\<close>, which
  then returns no entry. The functions before the call (the decoding) and those that
  do not depend on it (the chunker, the chunk list of lines 762 to 764) are modelled
  from their own source lines.
\<close>

definition mainframe_keywords :: "string list" where
  "mainframe_keywords =
     [''mainframe'', ''cobol'', ''jcl'', ''cics'', ''db2'', ''ims'', ''vsam'',
      ''rexx'', ''racf'', ''tso'', ''ispf'', ''sdsf'', ''sort'', ''idcams'']"

definition extract_text_tags :: "string \<Rightarrow> string \<Rightarrow> string list" where
  "extract_text_tags cont ctype =
     remdups (py_lower ctype
       # filter (\<lambda>keyword. contains keyword (py_lower cont)) mainframe_keywords)"

text \<open>
  Lines 762 to 764 of \<^verbatim>\<open>TextProcessor.process\<close>: the chunk list of the entry is
  empty unless the content is longer than 10000 characters.
\<close>

definition text_chunks :: "BaseProcessor \<Rightarrow> string \<Rightarrow> DocumentChunk list" where
  "text_chunks self cont =
     (if 10000 < length cont
      then create_text_chunks (md_checksum (self_metadata self)) cont 5000
      else [])"

text \<open>
  \<^verbatim>\<open>TextProcessor.process\<close> returns the entries; the processor is returned with
  them because the decoding loop assigns to \<^verbatim>\<open>self.metadata.encoding\<close>.
\<close>

definition TextProcessor_process ::
  "world \<Rightarrow> BaseProcessor \<Rightarrow> KnowledgeBaseEntry list \<times> BaseProcessor" where
  "TextProcessor_process w self =
     (case decode_file w self of
        Inl e \<Rightarrow> ([], self)
      | Inr (cont, self') \<Rightarrow>
          (case w_detect_content_type w cont of
             Inl e \<Rightarrow> ([], self')
           | Inr ctype \<Rightarrow>
               ([\<lparr> uuid = md_checksum (self_metadata self'),
                   title = ''['' @ ctype @ ''] '' @ self_file_name self',
                   kb_content = cont,
                   summary = take 1000 cont,
                   category = ctype,
                   tags = extract_text_tags cont ctype,
                   confidence_score = 0.95,
                   source = self_file_name self',
                   document_type = ''text'',
                   kb_metadata =
                     [(''lines'', PInt (int (count_list cont nl) + 1)),
                      (''characters'', PInt (int (length cont))),
                      (''encoding'', (case md_encoding (self_metadata self') of
                                        None \<Rightarrow> PNone | Some enc \<Rightarrow> PStr enc)),
                      (''content_type'', PStr ctype)],
                   chunks = text_chunks self' cont,
                   created_by = ''auto_import'',
                   kb_embedding_text = None \<rparr>], self')))"

section \<open>UniversalDocumentProcessor\<close>

datatype processor_class =
    ExcelProcessor | PDFProcessor | WordProcessor | ImageProcessor | TextProcessor

definition processors :: "(DocumentType \<times> processor_class) list" where
  "processors =
     [(EXCEL, ExcelProcessor), (PDF, PDFProcessor), (WORD, WordProcessor),
      (IMAGE, ImageProcessor), (TEXT, TextProcessor)]"

text \<open>\<^verbatim>\<open>processor.process()\<close> for a processor of the given class.\<close>

fun processor_process ::
  "processor_class \<Rightarrow> world \<Rightarrow> BaseProcessor \<Rightarrow> py_exn + KnowledgeBaseEntry list" where
  "processor_process ExcelProcessor w self = ExcelProcessor_process w self"
| "processor_process PDFProcessor w self = Inr (PDFProcessor_process w self)"
| "processor_process WordProcessor w self = Inr (WordProcessor_process w self)"
| "processor_process ImageProcessor w self = Inr (ImageProcessor_process w self)"
| "processor_process TextProcessor w self = Inr (fst (TextProcessor_process w self))"

text \<open>
  \<^verbatim>\<open>process_file\<close>: the class registered for the detected type, \<^verbatim>\<open>TextProcessor\<close>
  when none is; an exception of the constructor or of \<^verbatim>\<open>process\<close> is logged and
  the empty list is returned.
\<close>

definition select_processor :: "string \<Rightarrow> processor_class" where
  "select_processor file_path =
     (case map_of processors (detect file_path) of
        None \<Rightarrow> TextProcessor
      | Some processor_class \<Rightarrow> processor_class)"

definition process_file :: "world \<Rightarrow> string \<Rightarrow> KnowledgeBaseEntry list" where
  "process_file w file_path =
     (case BaseProcessor_init w file_path of
        Inl e \<Rightarrow> []
      | Inr processor \<Rightarrow>
          (case processor_process (select_processor file_path) w processor of
             Inl e \<Rightarrow> []
           | Inr entries \<Rightarrow> entries))"

section \<open>Sample inputs\<close>

text \<open>
  A world in which every library is installed and the file holds the three bytes of
  \<^verbatim>\<open>abc\<close>. Its strict UTF-8 codec refuses every byte from 128 on, its other codecs
  read each byte as the code point of the same number, and its permissive decoder
  drops the bytes from 128 on. In it the call of \<^verbatim>\<open>_detect_content_type\<close> returns
  \<^verbatim>\<open>Text\<close>, and the name \<^verbatim>\<open>pd\<close> is not bound in \<^verbatim>\<open>_create_entry_from_row\<close>, as in
  the module. The worked examples below change single fields of it.
\<close>

definition sample_world :: world where
  "sample_world =
     \<lparr> w_stat = Inr \<lparr> st_size = 3, st_ctime = 0, st_mtime = 0 \<rparr>,
       w_absolute = ''/data/file'',
       w_guess_type = None,
       w_read_bytes = Inr [97, 98, 99],
       w_sha256_hex = (\<lambda>bs. ''c0ffee''),
       w_decode = (\<lambda>enc bs. if enc = ''utf-8'' \<and> (\<exists>b\<in>set bs. 128 \<le> unat b) then None
                              else Some (map (\<lambda>b. char_of (unat b)) bs)),
       w_decode_ignore = (\<lambda>bs. map (\<lambda>b. char_of (unat b)) (filter (\<lambda>b. unat b < 128) bs)),
       w_detect_content_type = (\<lambda>cont. Inr ''Text''),
       w_import_pandas = None,
       w_pd_global = False,
       w_read_excel = Inr [],
       w_to_string = (\<lambda>df. []),
       w_import_pdf = None,
       w_plumber_open = Inr [],
       w_pypdf_open = Inr [],
       w_import_docx = None,
       w_docx_open = Inr \<lparr> doc_paragraphs = [], doc_tables = [], doc_inline_shapes = 0 \<rparr>,
       w_import_image = None,
       w_image_open = Inr \<lparr> img_width = 1, img_height = 1, img_format = Some ''PNG'',
                             img_mode = ''RGB'' \<rparr>,
       w_image_to_string = Inr [] \<rparr>"

definition sample_metadata :: DocumentMetadata where
  "sample_metadata =
     \<lparr> md_file_name = ''file'',
       md_file_path = ''/data/file'',
       md_file_size = 3,
       md_file_type = UNKNOWN,
       md_mime_type = ''application/octet-stream'',
       md_created_date = Some 0,
       md_modified_date = Some 0,
       md_author = None,
       md_title = None,
       md_subject = None,
       md_keywords = [],
       md_language = None,
       md_page_count = None,
       md_word_count = None,
       md_has_images = False,
       md_has_tables = False,
       md_has_attachments = False,
       md_encoding = None,
       md_checksum = ''c0ffee'' \<rparr>"

definition sample_processor :: BaseProcessor where
  "sample_processor =
     \<lparr> self_file_path = ''file'', self_file_name = ''file'', self_metadata = sample_metadata \<rparr>"

text \<open>
  Three PDF files: the one of scenario B (three pages with text, a table of two rows
  on the second); one whose first page has no text; one that pdfplumber cannot open
  and PyPDF2 reads as three pages.
\<close>

definition scenario_b :: world where
  "scenario_b = sample_world
     \<lparr> w_plumber_open := Inr
         [\<lparr> extract_text = Inr (Some ''one''), extract_tables = Inr [] \<rparr>,
          \<lparr> extract_text = Inr (Some ''two''),
            extract_tables = Inr [[[Some ''a'', Some ''b''], [Some ''1'', None]]] \<rparr>,
          \<lparr> extract_text = Inr (Some ''three''), extract_tables = Inr [] \<rparr>] \<rparr>"

definition blank_first_page :: world where
  "blank_first_page = sample_world
     \<lparr> w_plumber_open := Inr
         [\<lparr> extract_text = Inr None, extract_tables = Inr [] \<rparr>,
          \<lparr> extract_text = Inr (Some ''abc''), extract_tables = Inr [] \<rparr>] \<rparr>"

definition failing_plumber :: world where
  "failing_plumber = sample_world
     \<lparr> w_plumber_open := Inl (LibraryError ''pdfplumber''),
       w_pypdf_open := Inr [Inr (Some ''one''), Inr (Some ''two''), Inr (Some ''three'')] \<rparr>"

text \<open>The type, the confidence and the chunk positions of an entry.\<close>

definition entry_shape :: "KnowledgeBaseEntry \<Rightarrow> string \<times> real \<times> (int \<times> int \<times> string) list" where
  "entry_shape e =
     (document_type e, confidence_score e,
      map (\<lambda>c. (chunk_index c, total_chunks c, content_type c)) (chunks e))"

text \<open>
  An image in which the recognition finds a form feed only, and one on which the
  recognition raises. A spreadsheet in a world without pandas, and the processor
  that the constructor builds for it.
\<close>

definition blank_image :: world where
  "blank_image = sample_world \<lparr> w_image_to_string := Inr [CHR 0x0C] \<rparr>"

definition failing_ocr :: world where
  "failing_ocr = sample_world \<lparr> w_image_to_string := Inl (LibraryError ''tesseract'') \<rparr>"

definition no_pandas :: world where
  "no_pandas = sample_world \<lparr> w_import_pandas := Some (ImportError ''pandas'') \<rparr>"

definition xlsx_processor :: BaseProcessor where
  "xlsx_processor =
     \<lparr> self_file_path = ''data.xlsx'', self_file_name = ''data.xlsx'',
       self_metadata = sample_metadata \<lparr> md_file_name := ''data.xlsx'', md_file_type := EXCEL \<rparr> \<rparr>"

text \<open>
  A workbook with one sheet \<^verbatim>\<open>S\<close> of three columns and two data rows: the first row
  is empty, the second has a name and notes; the last column is empty. A text file
  of 10001 bytes, each the letter a.
\<close>

definition sample_cols :: "label list" where
  "sample_cols = [LStr ''name'', LStr ''notes'', LStr ''empty'']"

definition sample_data :: "row list" where
  "sample_data =
     [(\<lambda>c. NaN),
      (\<lambda>c. if c = LStr ''name'' then Val ''CICS guide''
            else if c = LStr ''notes'' then Val ''batch job'' else NaN)]"

definition sample_workbook :: world where
  "sample_workbook = sample_world \<lparr> w_read_excel := Inr [(''S'', sample_cols, sample_data)] \<rparr>"


section \<open>Notions used in the properties\<close>

text \<open>What every chunk built by the loop satisfies at position \<open>i\<close>.\<close>

definition chunk_at :: "string \<Rightarrow> nat \<Rightarrow> DocumentChunk \<Rightarrow> bool" where
  "chunk_at checksum i c \<longleftrightarrow>
     chunk_index c = int i \<and> chunk_id c = ''chunk_'' @ str_int (int i) \<and>
     document_id c = checksum \<and> content_type c = ''text'' \<and>
     metadata c = [(''size'', PInt (int (length (content c))))] \<and>
     embedding_text c = content c"

text \<open>
  The blocks that a run over the pages appends to \<^verbatim>\<open>all_text\<close>, from the text of
  each page (\<open>None\<close> when the page has none): the block of a page carries the number
  of the page, and a page without text has no block.
\<close>

fun text_blocks :: "string option list \<Rightarrow> int \<Rightarrow> string list" where
  "text_blocks [] i = []"
| "text_blocks (t # ts) i =
     (case t of None \<Rightarrow> [] | Some x \<Rightarrow> if x = [] then [] else [page_block i x])
       @ text_blocks ts (i + 1)"

definition has_text :: "string option \<Rightarrow> bool" where
  "has_text t = (case t of None \<Rightarrow> False | Some x \<Rightarrow> x \<noteq> [])"

definition page_text :: "plumber_page \<Rightarrow> string option" where
  "page_text page = (case extract_text page of Inl e \<Rightarrow> None | Inr t \<Rightarrow> t)"

definition pypdf_text :: "py_exn + string option \<Rightarrow> string option" where
  "pypdf_text page = (case page of Inl e \<Rightarrow> None | Inr t \<Rightarrow> t)"

section \<open>Properties of the chunker\<close>

lemma split_nn_not_Nil: "split_nn cur s \<noteq> []"
  by (induction cur s rule: split_nn.induct) auto

lemma join_split_nn: "join nn (split_nn cur s) = cur @ s"
proof (induction cur s rule: split_nn.induct)
  case (1 cur a b cs)
  show ?case
  proof (cases "a = nl \<and> b = nl")
    case True
    obtain p ps where "split_nn [] cs = p # ps"
      using split_nn_not_Nil [of "[]" cs] by (cases "split_nn [] cs") auto
    with 1 True show ?thesis by (simp add: nn_def)
  next
    case False
    with 1 show ?thesis by auto
  qed
qed simp_all

lemma concat_paragraphs: "ps \<noteq> [] \<Longrightarrow> concat (map (\<lambda>p. p @ nn) ps) = join nn ps @ nn"
  by (induction nn ps rule: join.induct) simp_all

lemma chunk_at_text_chunk: "chunk_at checksum i (text_chunk checksum s (int i) t)"
  by (simp add: chunk_at_def text_chunk_def)

lemma chunk_at_total: "chunk_at checksum i (c\<lparr>total_chunks := t\<rparr>) = chunk_at checksum i c"
  by (simp add: chunk_at_def)

lemma chunk_at_snoc:
  assumes "\<forall>i<length cks. chunk_at checksum i (cks ! i)"
  shows "\<forall>i<length (cks @ [text_chunk checksum s (int (length cks)) t]).
           chunk_at checksum i ((cks @ [text_chunk checksum s (int (length cks)) t]) ! i)"
  using assms by (auto simp: nth_append less_Suc_eq chunk_at_text_chunk)

lemma chunk_loop_inv:
  assumes "chunk_loop checksum sz ps (cks, cur, idx) = (cks', cur', idx')"
    and "idx = int (length cks)"
    and "\<forall>i<length cks. chunk_at checksum i (cks ! i)"
  shows "idx' = int (length cks') \<and> (\<forall>i<length cks'. chunk_at checksum i (cks' ! i))"
  using assms
proof (induction ps arbitrary: cks cur idx)
  case Nil
  then show ?case by auto
next
  case (Cons para paras)
  show ?case
  proof (cases "int (length cur) + int (length para) < sz")
    case True
    with Cons.prems have "chunk_loop checksum sz paras (cks, cur @ para @ nn, idx) = (cks', cur', idx')"
      by simp
    from Cons.IH [OF this Cons.prems(2) Cons.prems(3)] show ?thesis .
  next
    case False
    show ?thesis
    proof (cases "cur = []")
      case True
      with False Cons.prems have "chunk_loop checksum sz paras (cks, para @ nn, idx) = (cks', cur', idx')"
        by simp
      from Cons.IH [OF this Cons.prems(2) Cons.prems(3)] show ?thesis .
    next
      case nonempty: False
      let ?cks = "cks @ [text_chunk checksum cur idx 0]"
      from False nonempty Cons.prems
      have run: "chunk_loop checksum sz paras (?cks, para @ nn, idx + 1) = (cks', cur', idx')"
        by simp
      have a: "idx + 1 = int (length ?cks)" using Cons.prems(2) by simp
      have b: "\<forall>i<length ?cks. chunk_at checksum i (?cks ! i)"
        using chunk_at_snoc [OF Cons.prems(3), of cur 0] Cons.prems(2) by simp
      from Cons.IH [OF run a b] show ?thesis .
    qed
  qed
qed

lemma chunk_loop_content:
  assumes "chunk_loop checksum sz ps (cks, cur, idx) = (cks', cur', idx')"
  shows "concat (map content cks') @ cur'
           = concat (map content cks) @ cur @ concat (map (\<lambda>p. p @ nn) ps)"
  using assms
proof (induction ps arbitrary: cks cur idx)
  case Nil
  then show ?case by simp
next
  case (Cons para paras)
  then show ?case
    by (auto simp: text_chunk_def split: if_splits)
qed

lemma chunk_loop_current:
  assumes "chunk_loop checksum sz ps (cks, cur, idx) = (cks', cur', idx')"
    and "cur \<noteq> [] \<or> ps \<noteq> []"
  shows "cur' \<noteq> []"
  using assms
proof (induction ps arbitrary: cks cur idx)
  case Nil
  then show ?case by simp
next
  case (Cons para paras)
  have "para @ nn \<noteq> []" "cur @ para @ nn \<noteq> []" by (simp_all add: nn_def)
  with Cons show ?case
    by (auto split: if_splits)
qed

lemma create_text_chunks_at:
  "i < length (create_text_chunks checksum cont sz)
     \<Longrightarrow> chunk_at checksum i (create_text_chunks checksum cont sz ! i)
       \<and> total_chunks (create_text_chunks checksum cont sz ! i)
           = int (length (create_text_chunks checksum cont sz))"
proof -
  assume i: "i < length (create_text_chunks checksum cont sz)"
  obtain cks cur idx where
    run: "chunk_loop checksum sz (split_nn [] cont) ([], [], 0) = (cks, cur, idx)"
    by (cases "chunk_loop checksum sz (split_nn [] cont) ([], [], 0)") auto
  from chunk_loop_inv [OF run] have
    idx: "idx = int (length cks)" and at: "\<forall>i<length cks. chunk_at checksum i (cks ! i)"
    by simp_all
  define fin where
    "fin = (if cur \<noteq> [] then cks @ [text_chunk checksum cur idx (int (length cks) + 1)] else cks)"
  have fin_at: "\<forall>i<length fin. chunk_at checksum i (fin ! i)"
    using at chunk_at_snoc [OF at, of cur "int (length cks) + 1"] idx
    by (simp add: fin_def)
  have res: "create_text_chunks checksum cont sz
               = map (\<lambda>c. c\<lparr>total_chunks := int (length fin)\<rparr>) fin"
    by (simp add: create_text_chunks_def run fin_def Let_def)
  from i fin_at show ?thesis
    by (simp add: res chunk_at_total)
qed

lemma create_text_chunks_concat:
  "concat (map content (create_text_chunks checksum cont sz)) = cont @ nn"
proof -
  obtain cks cur idx where
    run: "chunk_loop checksum sz (split_nn [] cont) ([], [], 0) = (cks, cur, idx)"
    by (cases "chunk_loop checksum sz (split_nn [] cont) ([], [], 0)") auto
  have "concat (map content cks) @ cur = concat (map (\<lambda>p. p @ nn) (split_nn [] cont))"
    using chunk_loop_content [OF run] by simp
  also have "\<dots> = cont @ nn"
    using concat_paragraphs [OF split_nn_not_Nil, of "[]" cont] join_split_nn [of "[]" cont]
    by simp
  finally have c: "concat (map content cks) @ cur = cont @ nn" .
  have "concat (map content (create_text_chunks checksum cont sz)) = concat (map content cks) @ cur"
    by (simp add: create_text_chunks_def run Let_def comp_def text_chunk_def)
  with c show ?thesis by simp
qed


text \<open>
  C3. For every content string and chunk size, each chunk returned by the chunker has
  \<open>total_chunks\<close> equal to the number of chunks returned, \<open>chunk_index\<close> equal to its
  position counted from 0, and the length of its own content under the key
  \<^verbatim>\<open>size\<close> of its metadata; the chunks are in paragraph order: their contents, one
  after the other, are the paragraphs of the input in order, each followed by the
  separator.
\<close>

theorem create_text_chunks_indices:
  "(\<forall>i<length (create_text_chunks checksum cont sz).
      total_chunks (create_text_chunks checksum cont sz ! i)
        = int (length (create_text_chunks checksum cont sz))
      \<and> chunk_index (create_text_chunks checksum cont sz ! i) = int i
      \<and> metadata (create_text_chunks checksum cont sz ! i)
          = [(''size'', PInt (int (length (content (create_text_chunks checksum cont sz ! i)))))])
   \<and> concat (map content (create_text_chunks checksum cont sz))
       = concat (map (\<lambda>p. p @ nn) (split_nn [] cont))"
proof -
  have "concat (map (\<lambda>p. p @ nn) (split_nn [] cont)) = cont @ nn"
    using concat_paragraphs [OF split_nn_not_Nil, of "[]" cont] join_split_nn [of "[]" cont]
    by simp
  then show ?thesis
    using create_text_chunks_at [of _ checksum cont sz] create_text_chunks_concat [of checksum cont sz]
    by (auto simp: chunk_at_def)
qed

theorem create_text_chunks_indices_witness:
  "length (create_text_chunks ''c'' (''ab'' @ nn @ ''cd'') 4) = 2
   \<and> total_chunks (create_text_chunks ''c'' (''ab'' @ nn @ ''cd'') 4 ! 1) = 2
   \<and> chunk_index (create_text_chunks ''c'' (''ab'' @ nn @ ''cd'') 4 ! 1) = 1
   \<and> metadata (create_text_chunks ''c'' (''ab'' @ nn @ ''cd'') 4 ! 1) = [(''size'', PInt 4)]"
proof -
  have len: "length (create_text_chunks ''c'' (''ab'' @ nn @ ''cd'') 4) = 2"
    by (simp add: create_text_chunks_def nn_def nl_def)
  have cont: "content (create_text_chunks ''c'' (''ab'' @ nn @ ''cd'') 4 ! 1) = ''cd'' @ nn"
    by (simp add: create_text_chunks_def nn_def nl_def text_chunk_def)
  from create_text_chunks_indices [of "''c''" "''ab'' @ nn @ ''cd''" 4] len cont
  show ?thesis by (simp add: nn_def)
qed

section \<open>Properties of the text extractor\<close>


lemma try_encodings_None:
  "try_encodings w bs encs = None \<longleftrightarrow> (\<forall>enc\<in>set encs. w_decode w enc bs = None)"
  by (induction encs) (auto split: option.splits)

lemma try_encodings_Some:
  "try_encodings w bs encs = Some (cont, enc) \<longleftrightarrow>
     (\<exists>pre post. encs = pre @ enc # post \<and> (\<forall>e\<in>set pre. w_decode w e bs = None)
        \<and> w_decode w enc bs = Some cont)"
proof (induction encs)
  case Nil
  then show ?case by simp
next
  case (Cons a encs)
  show ?case
  proof (cases "w_decode w a bs")
    case None
    have "(\<exists>pre post. a # encs = pre @ enc # post \<and> (\<forall>e\<in>set pre. w_decode w e bs = None)
            \<and> w_decode w enc bs = Some cont)
          \<longleftrightarrow> (\<exists>pre post. encs = pre @ enc # post \<and> (\<forall>e\<in>set pre. w_decode w e bs = None)
            \<and> w_decode w enc bs = Some cont)" (is "?L \<longleftrightarrow> ?R")
    proof
      assume ?L
      then obtain pre post where p: "a # encs = pre @ enc # post"
        "\<forall>e\<in>set pre. w_decode w e bs = None" "w_decode w enc bs = Some cont" by blast
      with None have "pre \<noteq> []" by (cases pre) auto
      then obtain pre' where "pre = a # pre'" using p(1) by (cases pre) auto
      with p show ?R by auto
    next
      assume ?R
      then obtain pre post where p: "encs = pre @ enc # post"
        "\<forall>e\<in>set pre. w_decode w e bs = None" "w_decode w enc bs = Some cont" by blast
      then have "a # encs = (a # pre) @ enc # post" "\<forall>e\<in>set (a # pre). w_decode w e bs = None"
        using None by auto
      with p(3) show ?L by blast
    qed
    with None Cons show ?thesis by simp
  next
    case (Some c)
    have "(\<exists>pre post. a # encs = pre @ enc # post \<and> (\<forall>e\<in>set pre. w_decode w e bs = None)
            \<and> w_decode w enc bs = Some cont) \<longleftrightarrow> (c = cont \<and> a = enc)" (is "?L \<longleftrightarrow> ?R")
    proof
      assume ?L
      then obtain pre post where p: "a # encs = pre @ enc # post"
        "\<forall>e\<in>set pre. w_decode w e bs = None" "w_decode w enc bs = Some cont" by blast
      show ?R
      proof (cases pre)
        case Nil
        with p Some show ?thesis by auto
      next
        case (Cons x xs)
        with p Some show ?thesis by auto
      qed
    next
      assume ?R
      then have "a # encs = [] @ enc # encs" "w_decode w enc bs = Some cont" using Some by auto
      then show ?L by (metis empty_iff list.set(1))
    qed
    with Some show ?thesis by auto
  qed
qed

text \<open>
  C8. When the file can be read, the decoding of the text extractor does not fail
  and returns a content: what the first encoding of the list, in order, decodes
  without error, and then that encoding is stored in the encoding field of the
  processor's metadata; when every encoding of the list fails, the content is the
  permissive decoding of the bytes and the metadata is unchanged.
\<close>

theorem decode_file_first_success:
  assumes "w_read_bytes w = Inr bs"
  shows "\<exists>cont self'.
           decode_file w self = Inr (cont, self')
         \<and> ((\<exists>pre enc post. encodings = pre @ enc # post
                \<and> (\<forall>e\<in>set pre. w_decode w e bs = None)
                \<and> w_decode w enc bs = Some cont
                \<and> self' = self\<lparr> self_metadata := (self_metadata self)\<lparr> md_encoding := Some enc \<rparr> \<rparr>)
             \<or> ((\<forall>e\<in>set encodings. w_decode w e bs = None)
                \<and> cont = w_decode_ignore w bs \<and> self' = self))"
proof (cases "try_encodings w bs encodings")
  case None
  then have all: "\<forall>e\<in>set encodings. w_decode w e bs = None"
    by (simp add: try_encodings_None)
  have "decode_file w self = Inr (w_decode_ignore w bs, self)"
    using assms None by (simp add: decode_file_def)
  with all show ?thesis by blast
next
  case (Some p)
  obtain cont enc where p: "p = (cont, enc)" by (cases p)
  let ?self = "self\<lparr> self_metadata := (self_metadata self)\<lparr> md_encoding := Some enc \<rparr> \<rparr>"
  from Some p obtain pre post where pp: "encodings = pre @ enc # post"
    "\<forall>e\<in>set pre. w_decode w e bs = None" "w_decode w enc bs = Some cont"
    using try_encodings_Some [of w bs encodings cont enc] by auto
  have "decode_file w self = Inr (cont, ?self)"
    using assms Some p by (simp add: decode_file_def)
  with pp show ?thesis by blast
qed

theorem decode_file_first_success_witness:
  "w_read_bytes (sample_world\<lparr> w_read_bytes := Inr [200, 97] \<rparr>) = Inr [200, 97]
   \<and> decode_file (sample_world\<lparr> w_read_bytes := Inr [200, 97] \<rparr>) sample_processor
       = Inr ([CHR 0xC8, CHR ''a''],
              sample_processor\<lparr> self_metadata := sample_metadata\<lparr> md_encoding := Some ''latin-1'' \<rparr> \<rparr>)
   \<and> decode_file (sample_world\<lparr> w_read_bytes := Inr [200, 97], w_decode := (\<lambda>enc b. None) \<rparr>)
         sample_processor
       = Inr (''a'', sample_processor)
   \<and> (\<exists>cont self'.
         decode_file (sample_world\<lparr> w_read_bytes := Inr [200, 97] \<rparr>) sample_processor
           = Inr (cont, self'))"
proof -
  let ?w = "sample_world\<lparr> w_read_bytes := Inr [200, 97] \<rparr>"
  have h: "w_read_bytes ?w = Inr [200, 97]" by simp
  have d: "decode_file ?w sample_processor
             = Inr ([CHR 0xC8, CHR ''a''],
                    sample_processor\<lparr> self_metadata := sample_metadata\<lparr> md_encoding := Some ''latin-1'' \<rparr> \<rparr>)"
    by code_simp
  have i: "decode_file (sample_world\<lparr> w_read_bytes := Inr [200, 97], w_decode := (\<lambda>enc b. None) \<rparr>)
             sample_processor = Inr (''a'', sample_processor)"
    by code_simp
  from decode_file_first_success [OF h, of sample_processor] h d i show ?thesis by blast
qed




section \<open>Properties of the type detector\<close>

lemma split_on_not_Nil: "split_on c xs \<noteq> []"
  by (induction xs) (auto split: list.splits)

lemma split_on_no_sep: "c \<notin> set xs \<Longrightarrow> split_on c xs = [xs]"
  by (induction xs) auto

lemma split_on_append_sep: "split_on c (xs @ c # ys) = split_on c xs @ split_on c ys"
proof (induction xs)
  case Nil
  show ?case by simp
next
  case (Cons x xs)
  obtain p ps where "split_on c xs = p # ps"
    using split_on_not_Nil [of c xs] by (cases "split_on c xs") auto
  with Cons show ?case by simp
qed

lemma case_last: "xs \<noteq> [] \<Longrightarrow> (case xs of [] \<Rightarrow> [] | x # ys \<Rightarrow> last (x # ys)) = last xs"
  by (cases xs) auto

lemma Path_name_last_component:
  assumes "dir = [] \<or> last dir = CHR ''/''" and "name \<noteq> []" and "name \<noteq> ''.''"
    and "CHR ''/'' \<notin> set name"
  shows "Path_name (dir @ name) = name"
proof (cases "dir = []")
  case True
  with assms show ?thesis by (simp add: Path_name_def split_on_no_sep)
next
  case False
  with assms(1) obtain d where d: "dir = d @ [CHR ''/'']"
    by (metis append_butlast_last_id)
  have "split_on CHR ''/'' (dir @ name) = split_on CHR ''/'' d @ [name]"
    using split_on_append_sep [of "CHR ''/''" d name] assms(4) by (simp add: d split_on_no_sep)
  then have "filter (\<lambda>x. x \<noteq> [] \<and> x \<noteq> ''.'') (split_on CHR ''/'' (dir @ name))
               = filter (\<lambda>x. x \<noteq> [] \<and> x \<noteq> ''.'') (split_on CHR ''/'' d) @ [name]"
    using assms(2,3) by simp
  then show ?thesis
    by (simp add: Path_name_def case_last)
qed

lemma rfind_None: "c \<notin> set xs \<Longrightarrow> rfind c xs = None"
  by (induction xs) auto

lemma rfind_last: "c \<notin> set ys \<Longrightarrow> rfind c (xs @ c # ys) = Some (length xs)"
  by (induction xs) (auto simp: rfind_None)

lemma Path_suffix_extension:
  assumes "dir = [] \<or> last dir = CHR ''/''" and "stem \<noteq> []" and "CHR ''/'' \<notin> set stem"
    and "ext \<noteq> []" and "CHR ''/'' \<notin> set ext" and "CHR ''.'' \<notin> set ext"
  shows "Path_suffix (dir @ stem @ ''.'' @ ext) = ''.'' @ ext"
proof -
  let ?name = "stem @ CHR ''.'' # ext"
  have "length ?name \<noteq> length ''.''"
    using assms(2,4) by (cases stem) auto
  then have "?name \<noteq> ''.''" by metis
  then have n: "Path_name (dir @ ?name) = ?name"
    using assms by (intro Path_name_last_component) auto
  have r: "rfind CHR ''.'' ?name = Some (length stem)"
    using assms(6) by (rule rfind_last)
  show ?thesis
    using assms(2,4) n r by (simp add: Path_suffix_def Let_def)
qed

text \<open>
  C9. For every path the detector returns one category: the one the extension table
  gives for the lowercased suffix of the path, and \<open>UNKNOWN\<close> when the table has no
  such key; the keys of the table are distinct, so the table gives at most one. For
  a path whose last component is a non-empty stem, a dot and a non-empty extension
  without dot, the suffix is the dot with the extension, whatever the directory part
  and the letter case. The detector is a total function of the path alone.
\<close>

theorem detect_by_extension:
  "((py_lower (Path_suffix p) \<notin> fst ` set EXTENSION_MAP \<and> detect p = UNKNOWN)
      \<or> (py_lower (Path_suffix p), detect p) \<in> set EXTENSION_MAP)
   \<and> distinct (map fst EXTENSION_MAP)
   \<and> ((dir = [] \<or> last dir = CHR ''/'') \<and> stem \<noteq> [] \<and> CHR ''/'' \<notin> set stem
        \<and> ext \<noteq> [] \<and> CHR ''/'' \<notin> set ext \<and> CHR ''.'' \<notin> set ext
      \<longrightarrow> Path_suffix (dir @ stem @ ''.'' @ ext) = ''.'' @ ext
        \<and> detect (dir @ stem @ ''.'' @ ext)
            = (case map_of EXTENSION_MAP (''.'' @ py_lower ext) of None \<Rightarrow> UNKNOWN | Some t \<Rightarrow> t))"
proof (intro conjI impI)
  show "(py_lower (Path_suffix p) \<notin> fst ` set EXTENSION_MAP \<and> detect p = UNKNOWN)
      \<or> (py_lower (Path_suffix p), detect p) \<in> set EXTENSION_MAP"
    by (auto simp: detect_def Let_def map_of_eq_None_iff split: option.splits dest: map_of_SomeD)
  show "distinct (map fst EXTENSION_MAP)"
    by (simp add: EXTENSION_MAP_def)
next
  assume a: "(dir = [] \<or> last dir = CHR ''/'') \<and> stem \<noteq> [] \<and> CHR ''/'' \<notin> set stem
        \<and> ext \<noteq> [] \<and> CHR ''/'' \<notin> set ext \<and> CHR ''.'' \<notin> set ext"
  then show s: "Path_suffix (dir @ stem @ ''.'' @ ext) = ''.'' @ ext"
    using Path_suffix_extension [of dir stem ext] by blast
  have "py_lower (''.'' @ ext) = ''.'' @ py_lower ext"
    by (simp add: py_lower_def py_lower_char_def)
  with s show "detect (dir @ stem @ ''.'' @ ext)
            = (case map_of EXTENSION_MAP (''.'' @ py_lower ext) of None \<Rightarrow> UNKNOWN | Some t \<Rightarrow> t)"
    by (simp add: detect_def Let_def)
qed

theorem detect_by_extension_witness:
  "detect ''docs/Report.PDF'' = PDF
   \<and> Path_suffix ''docs/Report.PDF'' = ''.PDF''
   \<and> (py_lower (Path_suffix ''docs/Report.PDF''), PDF) \<in> set EXTENSION_MAP
   \<and> detect ''docs/notes'' = UNKNOWN"
proof -
  have l: "py_lower ''PDF'' = ''pdf''" by code_simp
  have m: "map_of EXTENSION_MAP ''.pdf'' = Some PDF" by (simp add: EXTENSION_MAP_def)
  have u: "detect ''docs/notes'' = UNKNOWN" by code_simp
  from detect_by_extension [of "''docs/Report.PDF''" "''docs/''" "''Report''" "''PDF''"] l m u
  show ?thesis by auto
qed

section \<open>Properties of the PDF extractor\<close>

lemma length_text_blocks: "length (text_blocks ts i) = length (filter has_text ts)"
  by (induction ts arbitrary: i) (auto simp: has_text_def split: option.splits)

lemma text_blocks_all:
  "\<forall>t\<in>set ts. has_text t \<Longrightarrow> k < length ts
     \<Longrightarrow> \<exists>x. ts ! k = Some x \<and> text_blocks ts i ! k = page_block (i + int k) x"
proof (induction ts arbitrary: i k)
  case Nil
  then show ?case by simp
next
  case (Cons t ts)
  from Cons.prems(1) obtain x where x: "t = Some x" "x \<noteq> []"
    by (auto simp: has_text_def split: option.splits)
  show ?case
  proof (cases k)
    case 0
    with x show ?thesis by simp
  next
    case (Suc k')
    with Cons.prems have "k' < length ts" "\<forall>t\<in>set ts. has_text t" by simp_all
    from Cons.IH [OF this(2) this(1), of "i + 1"] obtain y where
      "ts ! k' = Some y" "text_blocks ts (i + 1) ! k' = page_block (i + 1 + int k') y" by blast
    with x Suc show ?thesis by (simp add: algebra_simps)
  qed
qed

lemma plumber_pages_loop_Inr:
  "plumber_pages_loop pages i (all_text, tables) = Inr (all_text', tables')
     \<Longrightarrow> all_text' = all_text @ text_blocks (map page_text pages) i
       \<and> (\<forall>p\<in>set pages. (\<exists>t. extract_text p = Inr t) \<and> (\<exists>ts. extract_tables p = Inr ts))"
proof (induction pages arbitrary: i all_text tables)
  case Nil
  then show ?case by simp
next
  case (Cons page pages)
  from Cons.prems obtain t ts where t: "extract_text page = Inr t" "extract_tables page = Inr ts"
    by (auto split: sum.splits)
  let ?at = "(case t of None \<Rightarrow> all_text | Some x \<Rightarrow> if x = [] then all_text else all_text @ [page_block i x])"
  let ?tb = "(if ts \<noteq> [] then tables @ ts else tables)"
  from Cons.prems t have "plumber_pages_loop pages (i + 1) (?at, ?tb) = Inr (all_text', tables')"
    by simp
  from Cons.IH [OF this] have
    "all_text' = ?at @ text_blocks (map page_text pages) (i + 1)"
    "\<forall>p\<in>set pages. (\<exists>t. extract_text p = Inr t) \<and> (\<exists>ts. extract_tables p = Inr ts)"
    by simp_all
  moreover have "page_text page = t" using t by (simp add: page_text_def)
  ultimately show ?case using t
    by (auto split: option.splits)
qed

lemma plumber_pages_loop_total:
  "\<forall>p\<in>set pages. (\<exists>t. extract_text p = Inr t) \<and> (\<exists>ts. extract_tables p = Inr ts)
     \<Longrightarrow> \<exists>r. plumber_pages_loop pages i st = Inr r"
proof (induction pages arbitrary: i st)
  case Nil
  then show ?case by simp
next
  case (Cons page pages)
  obtain a b where st: "st = (a, b)" by (cases st)
  from Cons.prems obtain t ts where "extract_text page = Inr t" "extract_tables page = Inr ts"
    by auto
  with Cons st show ?case by simp
qed

lemma pypdf_pages_loop_Inr:
  "pypdf_pages_loop pages i all_text = Inr all_text'
     \<Longrightarrow> all_text' = all_text @ text_blocks (map pypdf_text pages) i
       \<and> (\<forall>p\<in>set pages. \<exists>t. p = Inr t)"
proof (induction pages arbitrary: i all_text)
  case Nil
  then show ?case by simp
next
  case (Cons page pages)
  from Cons.prems obtain t where t: "page = Inr t"
    by (auto split: sum.splits)
  let ?at = "(case t of None \<Rightarrow> all_text | Some x \<Rightarrow> if x = [] then all_text else all_text @ [page_block i x])"
  from Cons.prems t have "pypdf_pages_loop pages (i + 1) ?at = Inr all_text'"
    by simp
  from Cons.IH [OF this] have
    "all_text' = ?at @ text_blocks (map pypdf_text pages) (i + 1)"
    "\<forall>p\<in>set pages. \<exists>t. p = Inr t"
    by simp_all
  moreover have "pypdf_text page = t" using t by (simp add: pypdf_text_def)
  ultimately show ?case using t
    by (auto split: option.splits)
qed

lemma pypdf_pages_loop_total:
  "\<forall>p\<in>set pages. \<exists>t. p = Inr t \<Longrightarrow> \<exists>r. pypdf_pages_loop pages i all_text = Inr r"
proof (induction pages arbitrary: i all_text)
  case Nil
  then show ?case by simp
next
  case (Cons page pages)
  from Cons.prems obtain t where "page = Inr t" by auto
  with Cons show ?case by simp
qed

lemma table_entries_type:
  "e \<in> set (List.map_filter (\<lambda>(i, table). create_table_entry self table (int i)) its)
     \<Longrightarrow> document_type e = ''pdf_table'' \<and> confidence_score e = 0.8 \<and> chunks e = []"
  by (auto simp: List.map_filter_def create_table_entry_def split: if_splits)

lemma page_chunks_nth:
  "i < length all_text \<Longrightarrow>
     map (page_chunk self n) (enumerate 0 all_text) ! i
       = page_chunk self n (i, all_text ! i)"
  by (simp add: nth_enumerate_eq)

text \<open>
  C4 (amended). When the strategy with pdfplumber succeeds, the first entry returned
  is the document-level entry, with confidence 0.9, and the others are table
  entries. The document-level entry has one chunk for each page that has text, in
  page order, with the block of that page as content; a page without text has no
  chunk. Every chunk has content type \<^verbatim>\<open>text\<close>, its position in the list as chunk
  index and the number of chunks as \<open>total_chunks\<close>. When every page has text there
  is one chunk per page, and chunk \<open>i\<close> holds the block of page \<open>i + 1\<close>.
\<close>

theorem pdfplumber_chunks:
  assumes "w_import_pdf w = None"
    and "w_plumber_open w = Inr pages"
    and "pdfplumber_strategy w self = Inr entries"
  shows "\<exists>entry rest.
           PDFProcessor_process w self = entry # rest
         \<and> confidence_score entry = 0.9
         \<and> document_type entry = ''pdf''
         \<and> (\<forall>e\<in>set rest. document_type e = ''pdf_table'')
         \<and> map content (chunks entry) = text_blocks (map page_text pages) 0
         \<and> length (chunks entry) = length (filter has_text (map page_text pages))
         \<and> (\<forall>i<length (chunks entry).
               content_type (chunks entry ! i) = ''text''
             \<and> chunk_index (chunks entry ! i) = int i
             \<and> total_chunks (chunks entry ! i) = int (length (chunks entry)))
         \<and> ((\<forall>p\<in>set pages. has_text (page_text p)) \<longrightarrow>
               length (chunks entry) = length pages
             \<and> (\<forall>i<length pages. \<exists>t. extract_text (pages ! i) = Inr (Some t)
                   \<and> content (chunks entry ! i) = page_block (int i) t))"
proof -
  from assms(2,3) obtain all_text tables where
    loop: "plumber_pages_loop pages 0 ([], []) = Inr (all_text, tables)"
    by (auto simp: pdfplumber_strategy_def split: sum.splits)
  from plumber_pages_loop_Inr [OF loop] have
    at: "all_text = text_blocks (map page_text pages) 0"
    and ok: "\<forall>p\<in>set pages. (\<exists>t. extract_text p = Inr t) \<and> (\<exists>ts. extract_tables p = Inr ts)"
    by simp_all
  define cks where "cks = map (page_chunk self (length all_text)) (enumerate 0 all_text)"
  define rest where
    "rest = List.map_filter (\<lambda>(i, table). create_table_entry self table (int i)) (enumerate 0 tables)"
  obtain entry where
    res: "PDFProcessor_process w self = entry # rest"
    and e: "confidence_score entry = 0.9" "document_type entry = ''pdf''" "chunks entry = cks"
    using assms(1,2) loop
    by (simp add: PDFProcessor_process_def pdfplumber_strategy_def Let_def cks_def rest_def)
  have len: "length cks = length all_text" by (simp add: cks_def)
  have nth: "\<forall>i<length cks. cks ! i = page_chunk self (length all_text) (i, all_text ! i)"
    using page_chunks_nth [of _ all_text self "length all_text"] by (simp add: cks_def)
  have cont: "map content cks = all_text"
    using nth len by (intro nth_equalityI) (simp_all add: page_chunk_def)
  have fields: "\<forall>i<length cks. content_type (cks ! i) = ''text''
                  \<and> chunk_index (cks ! i) = int i \<and> total_chunks (cks ! i) = int (length cks)"
    using nth len by (simp add: page_chunk_def)
  have count: "length cks = length (filter has_text (map page_text pages))"
    using len at length_text_blocks by simp
  have all: "length cks = length pages
             \<and> (\<forall>i<length pages. \<exists>t. extract_text (pages ! i) = Inr (Some t)
                   \<and> content (cks ! i) = page_block (int i) t)"
    if h: "\<forall>p\<in>set pages. has_text (page_text p)"
  proof -
    from h have f: "filter has_text (map page_text pages) = map page_text pages"
      by (simp add: filter_id_conv)
    have l: "length cks = length pages" using count f by simp
    have "\<exists>t. extract_text (pages ! i) = Inr (Some t) \<and> content (cks ! i) = page_block (int i) t"
      if i: "i < length pages" for i
    proof -
      from h have "\<forall>t\<in>set (map page_text pages). has_text t" by simp
      from text_blocks_all [OF this, of i 0] i obtain x where
        x: "page_text (pages ! i) = Some x"
           "text_blocks (map page_text pages) 0 ! i = page_block (int i) x"
        by auto
      from ok i obtain t where t: "extract_text (pages ! i) = Inr t" by (meson nth_mem)
      with x(1) have "extract_text (pages ! i) = Inr (Some x)" by (simp add: page_text_def)
      moreover have "content (cks ! i) = all_text ! i"
        using cont i l by (metis length_map nth_map)
      ultimately show ?thesis using x(2) at by auto
    qed
    with l show ?thesis by blast
  qed
  have tabs: "\<forall>e\<in>set rest. document_type e = ''pdf_table''"
    using table_entries_type [of _ self "enumerate 0 tables"] by (simp add: rest_def)
  show ?thesis
    using res e(1,2) tabs cont at count fields all unfolding e(3) [symmetric]
    by (intro exI [of _ entry] exI [of _ rest]) simp
qed

theorem pdfplumber_chunks_witness:
  "w_import_pdf scenario_b = None
   \<and> pdfplumber_strategy scenario_b sample_processor
       = Inr (PDFProcessor_process scenario_b sample_processor)
   \<and> map entry_shape (PDFProcessor_process scenario_b sample_processor)
       = [(''pdf'', 0.9, [(0, 3, ''text''), (1, 3, ''text''), (2, 3, ''text'')]),
          (''pdf_table'', 0.8, [])]"
proof -
  have h1: "w_import_pdf scenario_b = None"
    by (simp add: scenario_b_def sample_world_def)
  have h2: "w_plumber_open scenario_b = Inr
         [\<lparr> extract_text = Inr (Some ''one''), extract_tables = Inr [] \<rparr>,
          \<lparr> extract_text = Inr (Some ''two''),
            extract_tables = Inr [[[Some ''a'', Some ''b''], [Some ''1'', None]]] \<rparr>,
          \<lparr> extract_text = Inr (Some ''three''), extract_tables = Inr [] \<rparr>]"
    by (simp add: scenario_b_def)
  have h3: "pdfplumber_strategy scenario_b sample_processor
              = Inr (PDFProcessor_process scenario_b sample_processor)"
    by (simp add: PDFProcessor_process_def pdfplumber_strategy_def scenario_b_def
          sample_world_def Let_def)
  have v: "map entry_shape (PDFProcessor_process scenario_b sample_processor)
       = [(''pdf'', 0.9, [(0, 3, ''text''), (1, 3, ''text''), (2, 3, ''text'')]),
          (''pdf_table'', 0.8, [])]"
    by (simp add: entry_shape_def PDFProcessor_process_def pdfplumber_strategy_def scenario_b_def
          sample_world_def Let_def page_chunk_def create_table_entry_def List.map_filter_simps
          enumerate_eq_zip)
  from pdfplumber_chunks [OF h1 h2 h3] h1 h3 v show ?thesis by simp
qed

theorem pdfplumber_chunks_counterexample:
  "map kb_metadata (PDFProcessor_process blank_first_page sample_processor)
     = [[(''pages'', PInt 2), (''has_tables'', PBool False)]]
   \<and> map chunk_index (concat (map chunks (PDFProcessor_process blank_first_page sample_processor)))
     = [0]
   \<and> map content (concat (map chunks (PDFProcessor_process blank_first_page sample_processor)))
     = [''--- P'' @ [CHR 0xE1] @ ''gina 2 ---'' @ [nl] @ ''abc'']"
proof -
  have "page_block 1 ''abc'' = ''--- P'' @ [CHR 0xE1] @ ''gina 2 ---'' @ [nl] @ ''abc''"
    by code_simp
  then show ?thesis
    by (simp add: PDFProcessor_process_def pdfplumber_strategy_def blank_first_page_def
          sample_world_def Let_def page_chunk_def List.map_filter_simps)
qed

text \<open>
  C1 (amended). When the import of PyPDF2 or of pdfplumber fails, no entry is returned
  and no second strategy is tried. When the imports succeed and the strategy with
  pdfplumber fails, the strategy with PyPDF2 runs. If it raises, no entry is
  returned. If the reader opens and every page gives its text, exactly one entry is
  returned: the document-level entry with confidence 0.7, document type \<^verbatim>\<open>pdf\<close>,
  the page blocks as content, the page count in its metadata, and no chunks; there
  is no table entry.
\<close>

theorem pdf_fallback:
  "(w_import_pdf w \<noteq> None \<longrightarrow> PDFProcessor_process w self = [])
   \<and> (w_import_pdf w = None \<and> pdfplumber_strategy w self = Inl e \<longrightarrow>
        (\<forall>e'. pypdf_strategy w self = Inl e' \<longrightarrow> PDFProcessor_process w self = [])
      \<and> (\<forall>pages. w_pypdf_open w = Inr pages \<and> (\<forall>p\<in>set pages. \<exists>t. p = Inr t) \<longrightarrow>
            (\<exists>entry. PDFProcessor_process w self = [entry]
               \<and> confidence_score entry = 0.7
               \<and> chunks entry = []
               \<and> document_type entry = ''pdf''
               \<and> kb_content entry = join nn (text_blocks (map pypdf_text pages) 0)
               \<and> kb_metadata entry = [(''pages'', PInt (int (length pages)))])))"
proof (intro conjI allI impI)
  assume "w_import_pdf w \<noteq> None"
  then show "PDFProcessor_process w self = []"
    by (auto simp: PDFProcessor_process_def)
next
  fix e'
  assume "w_import_pdf w = None \<and> pdfplumber_strategy w self = Inl e"
    and "pypdf_strategy w self = Inl e'"
  then show "PDFProcessor_process w self = []"
    by (simp add: PDFProcessor_process_def)
next
  fix pages
  assume f: "w_import_pdf w = None \<and> pdfplumber_strategy w self = Inl e"
    and a: "w_pypdf_open w = Inr pages \<and> (\<forall>p\<in>set pages. \<exists>t. p = Inr t)"
  then obtain all_text where loop: "pypdf_pages_loop pages 0 [] = Inr all_text"
    using pypdf_pages_loop_total [of pages 0 "[]"] by blast
  from pypdf_pages_loop_Inr [OF loop] have "all_text = text_blocks (map pypdf_text pages) 0"
    by simp
  with a loop f show "\<exists>entry. PDFProcessor_process w self = [entry]
               \<and> confidence_score entry = 0.7
               \<and> chunks entry = []
               \<and> document_type entry = ''pdf''
               \<and> kb_content entry = join nn (text_blocks (map pypdf_text pages) 0)
               \<and> kb_metadata entry = [(''pages'', PInt (int (length pages)))]"
    by (simp add: PDFProcessor_process_def pypdf_strategy_def Let_def)
qed

theorem pdf_fallback_witness:
  "w_import_pdf failing_plumber = None
   \<and> pdfplumber_strategy failing_plumber sample_processor = Inl (LibraryError ''pdfplumber'')
   \<and> w_pypdf_open failing_plumber = Inr [Inr (Some ''one''), Inr (Some ''two''), Inr (Some ''three'')]
   \<and> (\<exists>entry. PDFProcessor_process failing_plumber sample_processor = [entry]
         \<and> confidence_score entry = 0.7 \<and> chunks entry = [] \<and> document_type entry = ''pdf'')
   \<and> pypdf_strategy (failing_plumber\<lparr> w_pypdf_open := Inl (LibraryError ''PyPDF2'') \<rparr>)
         sample_processor = Inl (LibraryError ''PyPDF2'')
   \<and> PDFProcessor_process (failing_plumber\<lparr> w_pypdf_open := Inl (LibraryError ''PyPDF2'') \<rparr>)
         sample_processor = []
   \<and> w_import_pdf (failing_plumber\<lparr> w_import_pdf := Some (ImportError ''pdfplumber'') \<rparr>)
       = Some (ImportError ''pdfplumber'')
   \<and> PDFProcessor_process (failing_plumber\<lparr> w_import_pdf := Some (ImportError ''pdfplumber'') \<rparr>)
         sample_processor = []"
proof -
  let ?w = "failing_plumber\<lparr> w_pypdf_open := Inl (LibraryError ''PyPDF2'') \<rparr>"
  let ?v = "failing_plumber\<lparr> w_import_pdf := Some (ImportError ''pdfplumber'') \<rparr>"
  have h1: "w_import_pdf failing_plumber = None" "w_import_pdf ?w = None"
    by (simp_all add: failing_plumber_def sample_world_def)
  have h2: "pdfplumber_strategy failing_plumber sample_processor = Inl (LibraryError ''pdfplumber'')"
    "pdfplumber_strategy ?w sample_processor = Inl (LibraryError ''pdfplumber'')"
    by (simp_all add: pdfplumber_strategy_def failing_plumber_def)
  have h3: "w_pypdf_open failing_plumber
              = Inr [Inr (Some ''one''), Inr (Some ''two''), Inr (Some ''three'')]"
    by (simp add: failing_plumber_def)
  have h4: "pypdf_strategy ?w sample_processor = Inl (LibraryError ''PyPDF2'')"
    by (simp add: pypdf_strategy_def)
  have h5: "w_import_pdf ?v = Some (ImportError ''pdfplumber'')" by simp
  from pdf_fallback [of failing_plumber sample_processor "LibraryError ''pdfplumber''"] h1(1) h2(1) h3
  have a: "\<exists>entry. PDFProcessor_process failing_plumber sample_processor = [entry]
         \<and> confidence_score entry = 0.7 \<and> chunks entry = [] \<and> document_type entry = ''pdf''"
    by auto
  from pdf_fallback [of ?w sample_processor "LibraryError ''pdfplumber''"] h1(2) h2(2) h4
  have b: "PDFProcessor_process ?w sample_processor = []" by blast
  from pdf_fallback [of ?v sample_processor] h5
  have c: "PDFProcessor_process ?v sample_processor = []" by simp
  from a b c h1 h2 h3 h4 h5 show ?thesis by simp
qed

theorem pdf_fallback_counterexample:
  "pdfplumber_strategy failing_plumber sample_processor = Inl (LibraryError ''pdfplumber'')
   \<and> map kb_metadata (PDFProcessor_process failing_plumber sample_processor)
       = [[(''pages'', PInt 3)]]
   \<and> map confidence_score (PDFProcessor_process failing_plumber sample_processor) = [0.7]
   \<and> map chunks (PDFProcessor_process failing_plumber sample_processor) = [[]]"
  by (simp add: PDFProcessor_process_def pypdf_strategy_def pdfplumber_strategy_def
        failing_plumber_def sample_world_def Let_def)

section \<open>Properties of the image extractor\<close>

text \<open>
  C7 (amended). If an import of the image extractor fails, or opening the image or
  the text recognition raises, no entry is returned. Otherwise the last entry
  returned is the image descriptor, with confidence 1.0; it is the only entry when
  the recognised text is blank (empty once stripped of white space), and it follows
  one entry of the recognised text, with confidence 0.7 and the first 500 characters
  of the text as summary, when the text is not blank.
\<close>

theorem image_entries:
  "((w_import_image w \<noteq> None \<or> (\<exists>e. w_image_open w = Inl e) \<or> (\<exists>e. w_image_to_string w = Inl e))
      \<longrightarrow> ImageProcessor_process w self = [])
   \<and> (w_import_image w = None \<and> w_image_open w = Inr img \<and> w_image_to_string w = Inr text
      \<longrightarrow> (\<exists>d. confidence_score d = 1.0 \<and> document_type d = ''image''
               \<and> kb_metadata d = image_metadata img text
               \<and> (py_strip text = [] \<longrightarrow> ImageProcessor_process w self = [d])
               \<and> (py_strip text \<noteq> [] \<longrightarrow>
                     (\<exists>ocr. ImageProcessor_process w self = [ocr, d]
                        \<and> confidence_score ocr = 0.7 \<and> document_type ocr = ''image_ocr''
                        \<and> summary ocr = take 500 text))))"
proof (intro conjI impI)
  assume "w_import_image w \<noteq> None \<or> (\<exists>e. w_image_open w = Inl e) \<or> (\<exists>e. w_image_to_string w = Inl e)"
  then show "ImageProcessor_process w self = []"
    by (auto simp: ImageProcessor_process_def split: option.splits sum.splits)
next
  assume a: "w_import_image w = None \<and> w_image_open w = Inr img \<and> w_image_to_string w = Inr text"
  have "confidence_score (img_entry self img text) = 1.0"
    "document_type (img_entry self img text) = ''image''"
    "kb_metadata (img_entry self img text) = image_metadata img text"
    by (simp_all add: img_entry_def)
  moreover have "py_strip text = [] \<longrightarrow> ImageProcessor_process w self = [img_entry self img text]"
    using a by (simp add: ImageProcessor_process_def)
  moreover have "py_strip text \<noteq> [] \<longrightarrow>
      (\<exists>ocr. ImageProcessor_process w self = [ocr, img_entry self img text]
         \<and> confidence_score ocr = 0.7 \<and> document_type ocr = ''image_ocr''
         \<and> summary ocr = take 500 text)"
    using a by (simp add: ImageProcessor_process_def ocr_entry_def)
  ultimately show "\<exists>d. confidence_score d = 1.0 \<and> document_type d = ''image''
               \<and> kb_metadata d = image_metadata img text
               \<and> (py_strip text = [] \<longrightarrow> ImageProcessor_process w self = [d])
               \<and> (py_strip text \<noteq> [] \<longrightarrow>
                     (\<exists>ocr. ImageProcessor_process w self = [ocr, d]
                        \<and> confidence_score ocr = 0.7 \<and> document_type ocr = ''image_ocr''
                        \<and> summary ocr = take 500 text))"
    by blast
qed

lemma strip_ff: "py_strip [CHR 0x0C] = []"
  by (simp add: py_strip_def py_isspace_def)

lemma strip_hi: "py_strip ''Hi'' = ''Hi''"
  by (simp add: py_strip_def py_isspace_def)

theorem image_entries_witness:
  "map entry_shape (ImageProcessor_process (sample_world \<lparr> w_image_to_string := Inr ''Hi'' \<rparr>)
                      sample_processor)
     = [(''image_ocr'', 0.7, []), (''image'', 1.0, [])]
   \<and> map entry_shape (ImageProcessor_process blank_image sample_processor) = [(''image'', 1.0, [])]
   \<and> ImageProcessor_process failing_ocr sample_processor = []"
proof -
  let ?w = "sample_world \<lparr> w_image_to_string := Inr ''Hi'' \<rparr>"
  let ?img = "\<lparr> img_width = 1, img_height = 1, img_format = Some ''PNG'', img_mode = ''RGB'' \<rparr>"
  have h: "w_import_image ?w = None \<and> w_image_open ?w = Inr ?img \<and> w_image_to_string ?w = Inr ''Hi''"
    "w_import_image blank_image = None \<and> w_image_open blank_image = Inr ?img
       \<and> w_image_to_string blank_image = Inr [CHR 0x0C]"
    "w_image_to_string failing_ocr = Inl (LibraryError ''tesseract'')"
    by (simp_all add: sample_world_def blank_image_def failing_ocr_def)
  from image_entries [of ?w sample_processor ?img "''Hi''"] h(1) strip_hi
  have a: "map entry_shape (ImageProcessor_process ?w sample_processor)
             = [(''image_ocr'', 0.7, []), (''image'', 1.0, [])]"
    by (auto simp: entry_shape_def ImageProcessor_process_def ocr_entry_def img_entry_def)
  from image_entries [of blank_image sample_processor ?img "[CHR 0x0C]"] h(2) strip_ff
  have b: "map entry_shape (ImageProcessor_process blank_image sample_processor) = [(''image'', 1.0, [])]"
    by (auto simp: entry_shape_def ImageProcessor_process_def img_entry_def)
  from image_entries [of failing_ocr sample_processor] h(3)
  have c: "ImageProcessor_process failing_ocr sample_processor = []"
    by blast
  from a b c show ?thesis by simp
qed

theorem image_entries_counterexample:
  "ImageProcessor_process failing_ocr sample_processor = []
   \<and> w_image_to_string blank_image = Inr [CHR 0x0C]
   \<and> [CHR 0x0C] \<noteq> []
   \<and> map document_type (ImageProcessor_process blank_image sample_processor) = [''image'']"
  by (simp add: ImageProcessor_process_def failing_ocr_def blank_image_def sample_world_def
        strip_ff img_entry_def)

section \<open>Properties of the dispatch\<close>

lemma processor_process_Inl:
  "processor_process c w pr = Inl e \<longleftrightarrow> c = ExcelProcessor \<and> w_import_pandas w = Some e"
  by (cases c) (auto simp: ExcelProcessor_process_def split: option.splits sum.splits)

text \<open>
  C2 (amended). \<^verbatim>\<open>process_file\<close> selects the processor registered for the detected
  type, and the text processor when none is registered. When the constructor or
  \<^verbatim>\<open>process\<close> raises, the result is the empty list: there is no second attempt with
  the text processor. Otherwise the result is the list that \<^verbatim>\<open>process\<close> returns. The
  only exception that leaves a \<^verbatim>\<open>process\<close> method is that of the import of pandas.
  No exception leaves \<^verbatim>\<open>process_file\<close>.
\<close>

theorem process_file_dispatch:
  "(detect p \<notin> fst ` set processors \<longrightarrow> select_processor p = TextProcessor)
   \<and> (\<forall>c. (detect p, c) \<in> set processors \<longrightarrow> select_processor p = c)
   \<and> (\<forall>e. BaseProcessor_init w p = Inl e \<longrightarrow> process_file w p = [])
   \<and> (\<forall>pr e. BaseProcessor_init w p = Inr pr
         \<and> processor_process (select_processor p) w pr = Inl e \<longrightarrow> process_file w p = [])
   \<and> (\<forall>pr es. BaseProcessor_init w p = Inr pr
         \<and> processor_process (select_processor p) w pr = Inr es \<longrightarrow> process_file w p = es)
   \<and> (\<forall>c pr e. processor_process c w pr = Inl e
         \<longleftrightarrow> c = ExcelProcessor \<and> w_import_pandas w = Some e)"
proof -
  have d: "distinct (map fst processors)" by (simp add: processors_def)
  have "select_processor p = TextProcessor" if "detect p \<notin> fst ` set processors"
    using that by (simp add: select_processor_def map_of_eq_None_iff [THEN iffD2])
  moreover have "select_processor p = c" if "(detect p, c) \<in> set processors" for c
    using that d by (simp add: select_processor_def)
  moreover have "\<forall>e. BaseProcessor_init w p = Inl e \<longrightarrow> process_file w p = []"
    by (simp add: process_file_def)
  moreover have "\<forall>pr e. BaseProcessor_init w p = Inr pr
         \<and> processor_process (select_processor p) w pr = Inl e \<longrightarrow> process_file w p = []"
    by (simp add: process_file_def)
  moreover have "\<forall>pr es. BaseProcessor_init w p = Inr pr
         \<and> processor_process (select_processor p) w pr = Inr es \<longrightarrow> process_file w p = es"
    by (simp add: process_file_def)
  moreover have "\<forall>c pr e. processor_process c w pr = Inl e
         \<longleftrightarrow> c = ExcelProcessor \<and> w_import_pandas w = Some e"
    using processor_process_Inl by blast
  ultimately show ?thesis
    by blast
qed

theorem process_file_dispatch_witness:
  "select_processor ''a.zip'' = TextProcessor
   \<and> select_processor ''data.xlsx'' = ExcelProcessor
   \<and> process_file (sample_world \<lparr> w_stat := Inl (OSError ''ENOENT'') \<rparr>) ''a.zip'' = []
   \<and> process_file no_pandas ''data.xlsx'' = []
   \<and> map document_type (process_file sample_world ''a.png'') = [''image'']"
proof -
  have z: "detect ''a.zip'' = ARCHIVE" "detect ''data.xlsx'' = EXCEL" by code_simp+
  have s1: "detect ''a.zip'' \<notin> fst ` set processors"
    "(detect ''data.xlsx'', ExcelProcessor) \<in> set processors"
    by (simp_all add: z processors_def)
  have i1: "BaseProcessor_init (sample_world \<lparr> w_stat := Inl (OSError ''ENOENT'') \<rparr>) ''a.zip''
              = Inl (OSError ''ENOENT'')"
    by (simp add: BaseProcessor_init_def)
  have i2: "BaseProcessor_init no_pandas ''data.xlsx'' = Inr xlsx_processor"
    by (simp add: BaseProcessor_init_def no_pandas_def sample_world_def xlsx_processor_def
          sample_metadata_def z) code_simp
  have sel: "select_processor ''a.zip'' = TextProcessor" "select_processor ''data.xlsx'' = ExcelProcessor"
    using process_file_dispatch [of "''a.zip''"] process_file_dispatch [of "''data.xlsx''"] s1
    by blast+
  have p2: "processor_process (select_processor ''data.xlsx'') no_pandas xlsx_processor
              = Inl (ImportError ''pandas'')"
    by (simp add: sel ExcelProcessor_process_def no_pandas_def)
  have a: "process_file (sample_world \<lparr> w_stat := Inl (OSError ''ENOENT'') \<rparr>) ''a.zip'' = []"
    using process_file_dispatch [of "''a.zip''" "sample_world \<lparr> w_stat := Inl (OSError ''ENOENT'') \<rparr>"] i1
    by blast
  have b: "process_file no_pandas ''data.xlsx'' = []"
    using process_file_dispatch [of "''data.xlsx''" no_pandas] i2 p2 by blast
  have c: "map document_type (process_file sample_world ''a.png'') = [''image'']"
    by code_simp
  from sel a b c show ?thesis by simp
qed

text \<open>
  The contrast below needs a file on which the text processor returns an entry, so
  it is stated in a world in which the call of \<^verbatim>\<open>_detect_content_type\<close> returns; the
  first conjunct says so.
\<close>

theorem process_file_dispatch_counterexample:
  "w_detect_content_type no_pandas ''abc'' = Inr ''Text''
   \<and> select_processor ''data.xlsx'' = ExcelProcessor
   \<and> BaseProcessor_init no_pandas ''data.xlsx'' = Inr xlsx_processor
   \<and> processor_process ExcelProcessor no_pandas xlsx_processor = Inl (ImportError ''pandas'')
   \<and> map kb_content (fst (TextProcessor_process no_pandas xlsx_processor)) = [''abc'']
   \<and> process_file no_pandas ''data.xlsx'' = []"
  by code_simp

section \<open>Properties of the spreadsheet extractor\<close>

text \<open>
  The module as it stands: the only import of pandas is local to
  \<^verbatim>\<open>ExcelProcessor.process\<close> (line 278), so the name \<^verbatim>\<open>pd\<close> is not bound when
  \<^verbatim>\<open>_create_entry_from_row\<close> evaluates \<^verbatim>\<open>pd.notna\<close> (line 316).
\<close>

lemma row_columns_loop_unbound:
  "row_columns_loop False r cols st = (if cols = [] then Inr st else Inl (NameError ''pd''))"
  by (cases cols; cases st) simp_all


lemma sample_prune:
  "prune sample_cols sample_data
     = \<lparr> df_columns = [LStr ''name'', LStr ''notes''], df_rows = [(1, sample_data ! 1)] \<rparr>"
  by (simp add: prune_def dropna_columns_def dropna_rows_def read_frame_def sample_cols_def
      sample_data_def upt_rec)


text \<open>
  What lines 338 to 363 build when they are reached, which needs \<^verbatim>\<open>pd\<close> to be bound:
  an entry with one chunk, whose chunk index is the row index passed and whose
  \<open>total_chunks\<close> is the number of columns passed, those left after the pruning.
\<close>

lemma create_entry_from_row_Some:
  assumes "create_entry_from_row pd_global self r columns sheet_name row_index = Inr (Some e)"
  shows "pd_global \<and> document_type e = ''excel''
       \<and> (\<exists>c. chunks e = [c] \<and> chunk_index c = row_index
              \<and> total_chunks c = int (length columns))"
proof -
  have "pd_global"
  proof (rule ccontr)
    assume "\<not> pd_global"
    then have "create_entry_from_row pd_global self r columns sheet_name row_index
                 = (if columns = [] then Inr None else Inl (NameError ''pd''))"
      by (simp add: create_entry_from_row_def row_columns_loop_unbound)
    with assms show False by (simp split: if_splits)
  qed
  moreover from assms have "document_type e = ''excel''
       \<and> (\<exists>c. chunks e = [c] \<and> chunk_index c = row_index
              \<and> total_chunks c = int (length columns))"
    by (auto simp: create_entry_from_row_def Let_def split: sum.splits if_splits)
  ultimately show ?thesis by blast
qed

lemma rows_loop_unbound:
  "cols \<noteq> [] \<Longrightarrow> rows \<noteq> []
     \<Longrightarrow> rows_loop False self cols sheet_name rows entries = (entries, Some (NameError ''pd''))"
  by (cases rows; cases cols) (auto simp: create_entry_from_row_def)

lemma process_sheet_unbound:
  "\<not> w_pd_global w \<Longrightarrow> fst (process_sheet w self sheet_name cols data entries) = entries"
  by (auto simp: process_sheet_def Let_def df_empty_def rows_loop_unbound)

lemma sheets_loop_unbound:
  "\<not> w_pd_global w \<Longrightarrow> fst (sheets_loop w self sheets entries) = entries"
proof (induction sheets arbitrary: entries)
  case Nil
  show ?case by simp
next
  case (Cons sheet sheets)
  obtain sheet_name cols data where s: "sheet = (sheet_name, cols, data)" by (cases sheet)
  obtain entries' x where
    p: "process_sheet w self sheet_name cols data entries = (entries', x)"
    by (cases "process_sheet w self sheet_name cols data entries")
  with process_sheet_unbound [OF Cons.prems, of self sheet_name cols data entries]
  have "entries' = entries" by simp
  with Cons s p show ?case by (cases x) simp_all
qed

text \<open>
  C5 (the module as it stands). With \<^verbatim>\<open>pd\<close> unbound, \<^verbatim>\<open>ExcelProcessor.process\<close> returns
  no entry, whatever the workbook: on the first sheet that is not empty after the
  pruning, the first row raises \<^verbatim>\<open>NameError\<close>, which the handler of \<^verbatim>\<open>process\<close> logs.
  So every sheet has 0 row-level entries, however many of its rows are not empty.
\<close>

theorem excel_as_shipped:
  "\<not> w_pd_global w \<Longrightarrow> w_import_pandas w = None \<Longrightarrow> ExcelProcessor_process w self = Inr []"
  by (simp add: ExcelProcessor_process_def sheets_loop_unbound split: sum.splits)

theorem excel_as_shipped_witness:
  "w_pd_global sample_workbook = False
   \<and> w_import_pandas sample_workbook = None
   \<and> w_read_excel sample_workbook = Inr [(''S'', sample_cols, sample_data)]
   \<and> length (df_rows (prune sample_cols sample_data)) = 1
   \<and> ExcelProcessor_process sample_workbook sample_processor = Inr []"
proof -
  have h: "\<not> w_pd_global sample_workbook" "w_import_pandas sample_workbook = None"
    by (simp_all add: sample_workbook_def sample_world_def)
  from excel_as_shipped [OF h, of sample_processor] h
  show ?thesis by (simp add: sample_prune) (simp add: sample_workbook_def)
qed

end
